theory Spec2Isabelle
  imports Complex_Main
begin

section \<open>JavaScript strings\<close>

text \<open>
  A JavaScript string is a sequence of UTF-16 code units, and \<open>.length\<close> counts code
  units. Strings are therefore lists of code-unit values; \<open>js\<close> embeds an ASCII literal.
\<close>

type_synonym jsstring = "nat list"

definition js :: "string \<Rightarrow> jsstring" where
  "js s = map of_char s"

text \<open>\<open>String.prototype.startsWith\<close> and \<open>String.prototype.includes\<close> (\<open>includes_js\<close>).\<close>

fun startsWith :: "jsstring \<Rightarrow> jsstring \<Rightarrow> bool" where
  "startsWith s [] = True"
| "startsWith [] (p # ps) = False"
| "startsWith (c # cs) (p # ps) = (c = p \<and> startsWith cs ps)"

fun includes_js :: "jsstring \<Rightarrow> jsstring \<Rightarrow> bool" where
  "includes_js [] sub = (sub = [])"
| "includes_js (c # cs) sub = (startsWith (c # cs) sub \<or> includes_js cs sub)"

text \<open>
  \<open>s.replace(pat, rep)\<close> with a string pattern: only the first occurrence of \<open>pat\<close> is
  replaced.
\<close>

fun replace :: "jsstring \<Rightarrow> jsstring \<Rightarrow> jsstring \<Rightarrow> jsstring" where
  "replace pat rep [] = (if pat = [] then rep else [])"
| "replace pat rep (c # cs) =
     (if startsWith (c # cs) pat then rep @ drop (length pat) (c # cs)
      else c # replace pat rep cs)"

text \<open>
  \<open>s.split(sep)\<close> for a separator of one code unit: the pieces between the separators,
  empty pieces included; the empty string splits into one empty piece.
\<close>

fun split :: "nat \<Rightarrow> jsstring \<Rightarrow> jsstring list" where
  "split sep [] = [[]]"
| "split sep (c # cs) =
     (if c = sep then [] # split sep cs
      else (case split sep cs of [] \<Rightarrow> [[c]] | p # ps \<Rightarrow> (c # p) # ps))"

text \<open>
  \<open>String.prototype.trim\<close> strips ECMAScript white space and line terminators from both
  ends: TAB, LF, VT, FF, CR, SP, NBSP, U+1680, U+2000 to U+200A, U+2028, U+2029, U+202F,
  U+205F, U+3000 and U+FEFF.
\<close>

definition isWhiteSpace :: "nat \<Rightarrow> bool" where
  "isWhiteSpace c \<longleftrightarrow>
     c \<in> set [9, 10, 11, 12, 13, 32, 160, 5760, 8192, 8193, 8194, 8195, 8196, 8197, 8198,
              8199, 8200, 8201, 8202, 8232, 8233, 8239, 8287, 12288, 65279]"

definition trim :: "jsstring \<Rightarrow> jsstring" where
  "trim s = rev (dropWhile isWhiteSpace (rev (dropWhile isWhiteSpace s)))"

text \<open>\<open>xs.slice(0, n)\<close> for an array and \<open>n \<ge> 0\<close>: the first \<open>n\<close> elements, or all of them.\<close>

definition slice0 :: "nat \<Rightarrow> 'a list \<Rightarrow> 'a list" where
  "slice0 n xs = take n xs"

section \<open>JavaScript numbers\<close>

text \<open>
  A JavaScript number is an IEEE 754 binary64 value, and every arithmetic operation returns
  the exact result rounded to the nearest binary64 value, ties to the value whose last
  significand bit is even. Numbers are modelled as the reals they denote; \<open>binary64 x\<close> is
  the rounding of the real \<open>x\<close>, so that the JavaScript product \<open>a * b\<close> is
  \<open>binary64 (a * b)\<close> and the literal \<open>0.85\<close> is \<open>binary64 (85 / 100)\<close>.

  \<open>roundTiesToEven\<close> rounds a real to the nearest integer, ties to the even one.
  \<open>binade n x\<close> numbers the binade of \<open>x \<ge> 0\<close>, found by searching downwards from
  \<open>n\<close>: it is \<open>k > 0\<close> when \<open>2 powi (k - 1022) \<le> x < 2 powi (k - 1021)\<close>, and 0 below
  \<open>2 powi (- 1021)\<close> (the subnormal numbers and the first binade of normal ones, which have
  the same spacing). In the binade with exponent \<open>e\<close> the values are the multiples of
  \<open>2 powi (e - 52)\<close>. Where this rounding gives a magnitude of \<open>2 powi 1024\<close> or more,
  IEEE 754 has infinity, which is outside this model; no number formed below exceeds 3900.
\<close>

definition roundTiesToEven :: "real \<Rightarrow> int" where
  "roundTiesToEven a =
     (let f = \<lfloor>a\<rfloor>; d = a - of_int f
      in if d < 1 / 2 then f else if 1 / 2 < d then f + 1 else if even f then f else f + 1)"

primrec binade :: "nat \<Rightarrow> real \<Rightarrow> nat" where
  "binade 0 x = 0"
| "binade (Suc k) x = (if 2 powi (int (Suc k) - 1022) \<le> x then Suc k else binade k x)"

definition exponent :: "real \<Rightarrow> int" where
  "exponent x = int (binade 2045 \<bar>x\<bar>) - 1022"

definition binary64 :: "real \<Rightarrow> real" where
  "binary64 x = (let u = 2 powi (exponent x - 52) in of_int (roundTiesToEven (x / u)) * u)"

text \<open>
  \<open>Math.random()\<close> returns a binary64 value that is at least 0 and less than 1; every draw
  is an explicit argument of the function that uses it.
\<close>

definition random_ok :: "real \<Rightarrow> bool" where
  "random_ok r \<longleftrightarrow> 0 \<le> r \<and> r < 1 \<and> binary64 r = r"

section \<open>The processing function: pure helpers\<close>

subsection \<open>Mock transcripts\<close>

definition template_0 :: jsstring where
  "template_0 = js (
     ''Interviewer: Thank you for joining us today. Could you start by telling us about your company's current market position?\<newline>\<newline>'' @
     ''Interviewee: Absolutely. We've been operating in the B2B software space for about 8 years now, and we've seen significant growth, especially in the last two years. Our recurring revenue has grown by 150% year-over-year, and we're currently serving over 2,000 enterprise clients.\<newline>\<newline>'' @
     ''Interviewer: That's impressive growth. What would you say are the main drivers behind this success?\<newline>\<newline>'' @
     ''Interviewee: I think there are three key factors. First, we identified a gap in the market early on - businesses were struggling with data integration across multiple platforms. Second, our team has deep domain expertise, with most of our engineers having 10+ years of experience in enterprise software. And third, we've been very focused on customer success and retention.\<newline>\<newline>'' @
     ''Interviewer: What challenges are you currently facing as you scale?\<newline>\<newline>'' @
     ''Interviewee: The main challenge is talent acquisition. We're growing so fast that we need to double our engineering team in the next 12 months, but finding qualified candidates is extremely difficult in today's market. We're also facing increased competition from larger players who are starting to notice our success.\<newline>\<newline>'' @
     ''Interviewer: How do you see the competitive landscape evolving?\<newline>\<newline>'' @
     ''Interviewee: We expect consolidation in our space within the next 2-3 years. The larger tech companies are acquiring smaller players, which creates both threats and opportunities for us. We need to either scale quickly enough to compete directly or position ourselves as an attractive acquisition target.\<newline>\<newline>'' @
     ''Interviewer: What are your funding needs and how would you use additional capital?\<newline>\<newline>'' @
     ''Interviewee: We're looking to raise $50M in Series B funding. The primary use would be scaling our sales and engineering teams, with about 60% going to talent acquisition, 25% to product development, and 15% to market expansion. We see a clear path to $100M ARR within 24 months with the right resources.'')"

definition template_1 :: jsstring where
  "template_1 = js (
     ''Interviewer: Let's discuss your company's financial performance over the past few years.\<newline>\<newline>'' @
     ''Interviewee: Our financials have been quite strong. We achieved profitability in year 3, which is relatively early for a SaaS company. Our gross margins are around 85%, and we've maintained an efficient CAC to LTV ratio of 1:5.\<newline>\<newline>'' @
     ''Interviewer: Can you walk us through your revenue model?\<newline>\<newline>'' @
     ''Interviewee: We operate on a subscription model with three tiers: Basic at $500/month, Professional at $2,000/month, and Enterprise starting at $10,000/month. About 70% of our revenue comes from the Professional tier, which targets mid-market companies. Our net revenue retention is 125%, indicating strong expansion within existing accounts.\<newline>\<newline>'' @
     ''Interviewer: What are the biggest risks you see for your business?\<newline>\<newline>'' @
     ''Interviewee: There are several risks we monitor closely. Technology risk is significant - our industry moves fast, and we need to continuously innovate to stay relevant. Regulatory changes, especially around data privacy, could impact our operations. And there's always the risk of new entrants with significant funding disrupting the market.\<newline>\<newline>'' @
     ''Interviewer: How do you approach product development and innovation?\<newline>\<newline>'' @
     ''Interviewee: We follow a data-driven approach. We spend a lot of time with our customers understanding their pain points. Our product roadmap is primarily driven by customer feedback and usage analytics. We also allocate about 20% of our engineering resources to experimental features and emerging technologies.\<newline>\<newline>'' @
     ''Interviewer: What's your international expansion strategy?\<newline>\<newline>'' @
     ''Interviewee: We're currently focused on the North American market, but we see significant opportunities in Europe and Asia-Pacific. We plan to enter the European market next year, starting with the UK and Germany. The regulatory environment in Europe is more complex, but the market opportunity is substantial.'')"

definition template_2 :: jsstring where
  "template_2 = js (
     ''Interviewer: Could you describe the management team and organizational structure?\<newline>\<newline>'' @
     ''Interviewee: Our leadership team brings together complementary skills. I handle strategy and business development, our CTO leads product and engineering, and our VP of Sales manages all revenue operations. We've kept the organization relatively flat to maintain agility, but we're starting to add middle management as we scale.\<newline>\<newline>'' @
     ''Interviewer: How do you maintain company culture during rapid growth?\<newline>\<newline>'' @
     ''Interviewee: Culture is something we think about constantly. We've documented our core values and ensure they're part of every hiring decision. We do quarterly all-hands meetings and maintain an open communication policy. The challenge is preserving the startup mentality while adding necessary processes and structure.\<newline>\<newline>'' @
     ''Interviewer: What role does technology play in your competitive advantage?\<newline>\<newline>'' @
     ''Interviewee: Technology is at the core of everything we do. We've built proprietary algorithms for data processing that give us a significant speed advantage over competitors. Our API response times are 3x faster than the industry average, and our uptime is 99.9%. We also have several patents pending on our core technology.\<newline>\<newline>'' @
     ''Interviewer: How do you see the next 5 years for your company?\<newline>\<newline>'' @
     ''Interviewee: We have an ambitious vision. In 5 years, we want to be the dominant platform in our category, with $500M+ in annual revenue. We see opportunities for horizontal expansion into adjacent markets and potentially strategic acquisitions. Going public is definitely on our roadmap, likely in the 3-4 year timeframe.\<newline>\<newline>'' @
     ''Interviewer: What would make this partnership successful from your perspective?\<newline>\<newline>'' @
     ''Interviewee: We're looking for more than just capital. We want a partner who understands our market and can provide strategic guidance as we scale. Access to your portfolio companies for potential partnerships or customers would be valuable. Most importantly, we want investors who share our long-term vision and won't pressure us for short-term returns at the expense of sustainable growth.'')"

definition templates :: "jsstring list" where
  "templates = [template_0, template_1, template_2]"

text \<open>
  \<open>randomIndex r n\<close> is \<open>Math.floor(r * n)\<close> for a draw \<open>r\<close> and an array length \<open>n\<close>: the
  floor of the rounded product.
\<close>

definition randomIndex :: "real \<Rightarrow> nat \<Rightarrow> nat" where
  "randomIndex r n = nat \<lfloor>binary64 (r * real n)\<rfloor>"

text \<open>
  \<open>generateMockTranscript\<close>: the file name, a fixed heading and the template at the random
  index. Reading a JavaScript array out of range gives \<open>undefined\<close>, which a template
  literal prints as the word.
\<close>

definition generateMockTranscript :: "real \<Rightarrow> jsstring \<Rightarrow> jsstring" where
  "generateMockTranscript r fileName =
     (let i = randomIndex r (length templates);
          randomTemplate = (if i < length templates then templates ! i else js ''undefined'')
      in js ''File: '' @ fileName @ js ''\<newline>\<newline>Transcript:\<newline>\<newline>'' @ randomTemplate)"

subsection \<open>Key points\<close>

text \<open>Code units of the bullet U+2022, the hyphen and the asterisk.\<close>

definition bulletMarks :: "nat list" where
  "bulletMarks = [8226, 45, 42]"

text \<open>\<open>line.replace(/[\<bullet>\-*]/g, '')\<close>: every bullet mark is removed.\<close>

definition stripMarks :: "jsstring \<Rightarrow> jsstring" where
  "stripMarks line = filter (\<lambda>c. c \<notin> set bulletMarks) line"

text \<open>The body of the \<open>forEach\<close> over the lines, with the array \<open>keyPoints\<close> threaded.\<close>

definition pushKeyPoint :: "jsstring \<Rightarrow> jsstring list \<Rightarrow> jsstring list" where
  "pushKeyPoint line keyPoints =
     (if 8226 \<in> set line \<or> 45 \<in> set line \<or> 42 \<in> set line
      then keyPoints @ [trim (stripMarks line)]
      else if length line > 50 \<and> length line < 200
      then keyPoints @ [trim line]
      else keyPoints)"

definition extractKeyPoints :: "jsstring \<Rightarrow> jsstring list" where
  "extractKeyPoints aiSummary =
     (let lines = filter (\<lambda>line. length (trim line) > 0) (split 10 aiSummary);
          keyPoints = fold pushKeyPoint lines []
      in if length keyPoints = 0
         then (let sentences = filter (\<lambda>s. length (trim s) > 30) (split 46 aiSummary)
               in map (\<lambda>s. trim s @ js ''.'') (slice0 5 sentences))
         else slice0 8 keyPoints)"

subsection \<open>Tags\<close>

definition commonBusinessTags :: "jsstring list" where
  "commonBusinessTags = map js
     [''growth'', ''revenue'', ''market-position'', ''competition'', ''scaling'',
      ''funding'', ''technology'', ''team'', ''strategy'', ''risks'', ''opportunities'',
      ''product-development'', ''customer-success'', ''market-expansion'', ''partnerships'']"

definition additionalTags :: "jsstring list" where
  "additionalTags = map js [''business-model'', ''financial-performance'', ''leadership'']"

text \<open>
  \<open>generateTags\<close>. \<open>String.prototype.toLowerCase\<close> is the host's Unicode case mapping;
  it is the parameter \<open>toLowerCase\<close>, so that every result below holds whatever the
  mapping is. \<open>asciiLower\<close> is its restriction to Basic Latin, used to run examples.
\<close>

definition generateTags :: "(jsstring \<Rightarrow> jsstring) \<Rightarrow> jsstring \<Rightarrow> jsstring list" where
  "generateTags toLowerCase aiSummary =
     (let summaryLower = toLowerCase aiSummary;
          relevantTags = filter (\<lambda>tag.
              includes_js summaryLower (replace (js ''-'') (js '' '') tag) \<or>
              includes_js summaryLower (replace (js ''-'') [] tag)) commonBusinessTags;
          relevantTags = (if length relevantTags < 3
              then relevantTags @ slice0 (3 - length relevantTags) additionalTags
              else relevantTags)
      in slice0 6 relevantTags)"

definition asciiLower :: "jsstring \<Rightarrow> jsstring" where
  "asciiLower s = map (\<lambda>c. if 65 \<le> c \<and> c \<le> 90 then c + 32 else c) s"

section \<open>The relational store and the object store\<close>

text \<open>
  Identifiers are UUIDs in text form. The tables \<open>transcripts\<close> and \<open>insights\<close> follow the
  migration; the bookkeeping columns \<open>created_at\<close> and \<open>updated_at\<close> are written by defaults
  and triggers only, are read by none of the functions below, and are left out. The key of
  the map \<open>transcripts\<close> is the primary key \<open>id\<close>. Insight rows get their \<open>id\<close> from the
  database and are never looked up by it, so the table is the list of its rows in insertion
  order.
\<close>

type_synonym uuid = jsstring
type_synonym timestamp = jsstring

record transcript =
  user_id :: uuid
  title :: jsstring
  file_name :: jsstring
  transcript_text :: "jsstring option"
  audio_duration :: "int option"
  processed_at :: "timestamp option"

record insight =
  transcript_id :: uuid
  insight_user_id :: uuid
  summary_text :: jsstring
  key_points :: "jsstring list"
  tags :: "jsstring list"
  confidence_score :: real

record upload_file =
  name :: jsstring
  bytes :: "nat list"

record backend =
  transcripts :: "uuid \<rightharpoonup> transcript"
  insights :: "insight list"
  audio_files :: "jsstring \<rightharpoonup> upload_file"

definition empty_backend :: backend where
  "empty_backend = \<lparr>transcripts = Map.empty, insights = [], audio_files = Map.empty\<rparr>"

text \<open>
  Every call to the hosted services can fail for reasons outside the program (transport,
  policy, quota). Such an outcome is an argument of the operation: \<open>None\<close> when the service
  carries the request out, \<open>Some message\<close> when it reports an error and changes nothing.
\<close>

type_synonym service_error = "jsstring option"

text \<open>
  \<open>insert(...).select().single()\<close> into \<open>transcripts\<close>: the database generates the id
  \<open>new_id\<close>; the primary key rejects an id already present. The new row has the three
  nullable columns empty.
\<close>

definition duplicate_key :: jsstring where
  "duplicate_key = js ''duplicate key value violates unique constraint''"

definition insert_transcript ::
  "service_error \<Rightarrow> uuid \<Rightarrow> uuid \<Rightarrow> jsstring \<Rightarrow> jsstring \<Rightarrow> backend \<Rightarrow> (jsstring + uuid) \<times> backend" where
  "insert_transcript err new_id uid ttl fname db =
     (case err of
        Some m \<Rightarrow> (Inl m, db)
      | None \<Rightarrow>
          if new_id \<in> dom (transcripts db) then (Inl duplicate_key, db)
          else (Inr new_id,
                db\<lparr>transcripts := (transcripts db)(new_id \<mapsto>
                  \<lparr>user_id = uid, title = ttl, file_name = fname, transcript_text = None,
                   audio_duration = None, processed_at = None\<rparr>)\<rparr>))"

text \<open>
  \<open>delete().eq('id', tid)\<close> on \<open>transcripts\<close>; \<open>insights.transcript_id\<close> is declared
  \<open>ON DELETE CASCADE\<close>.
\<close>

definition delete_transcript :: "service_error \<Rightarrow> uuid \<Rightarrow> backend \<Rightarrow> service_error \<times> backend" where
  "delete_transcript err tid db =
     (case err of
        Some m \<Rightarrow> (Some m, db)
      | None \<Rightarrow>
          (None, db\<lparr>transcripts := (transcripts db)(tid := None),
                     insights := filter (\<lambda>i. transcript_id i \<noteq> tid) (insights db)\<rparr>))"

text \<open>
  \<open>select('*').eq('id', tid).single()\<close>: \<open>single\<close> reports an error when no row matches.
\<close>

definition no_rows :: jsstring where
  "no_rows = js ''JSON object requested, multiple (or no) rows returned''"

definition select_transcript :: "service_error \<Rightarrow> uuid \<Rightarrow> backend \<Rightarrow> jsstring + transcript" where
  "select_transcript err tid db =
     (case err of
        Some m \<Rightarrow> Inl m
      | None \<Rightarrow> (case transcripts db tid of None \<Rightarrow> Inl no_rows | Some t \<Rightarrow> Inr t))"

text \<open>
  \<open>update({transcript_text, processed_at, audio_duration}).eq('id', tid)\<close>: one statement
  that sets the three columns of the matching row; no matching row is not an error.
\<close>

definition update_transcript ::
  "service_error \<Rightarrow> uuid \<Rightarrow> jsstring \<Rightarrow> timestamp \<Rightarrow> int \<Rightarrow> backend \<Rightarrow> service_error \<times> backend" where
  "update_transcript err tid text now duration db =
     (case err of
        Some m \<Rightarrow> (Some m, db)
      | None \<Rightarrow>
          (case transcripts db tid of
             None \<Rightarrow> (None, db)
           | Some t \<Rightarrow>
               (None, db\<lparr>transcripts := (transcripts db)(tid \<mapsto>
                  t\<lparr>transcript_text := Some text, processed_at := Some now,
                    audio_duration := Some duration\<rparr>)\<rparr>)))"

text \<open>
  The column \<open>confidence_score\<close> is \<open>numeric(3,2) CHECK (confidence_score >= 0 AND
  confidence_score <= 1)\<close>: a value is rounded to two decimals, half away from zero; the
  rounded value must have at most one digit before the point and satisfy the check.
\<close>

definition numeric_3_2 :: "real \<Rightarrow> real" where
  "numeric_3_2 x =
     (if 0 \<le> x then of_int \<lfloor>x * 100 + 1 / 2\<rfloor> / 100 else of_int \<lceil>x * 100 - 1 / 2\<rceil> / 100)"

definition numeric_overflow :: jsstring where
  "numeric_overflow = js ''numeric field overflow''"

definition check_violation :: jsstring where
  "check_violation = js ''new row violates check constraint''"

definition foreign_key_violation :: jsstring where
  "foreign_key_violation = js ''insert or update violates foreign key constraint''"

definition insert_insight :: "service_error \<Rightarrow> insight \<Rightarrow> backend \<Rightarrow> service_error \<times> backend" where
  "insert_insight err row db =
     (case err of
        Some m \<Rightarrow> (Some m, db)
      | None \<Rightarrow>
          (let c = numeric_3_2 (confidence_score row)
           in if 10 \<le> \<bar>c\<bar> then (Some numeric_overflow, db)
              else if \<not> (0 \<le> c \<and> c \<le> 1) then (Some check_violation, db)
              else if transcript_id row \<notin> dom (transcripts db)
              then (Some foreign_key_violation, db)
              else (None, db\<lparr>insights := insights db @ [row\<lparr>confidence_score := c\<rparr>]\<rparr>)))"

text \<open>
  \<open>storage.from('audio-files').upload(key, file)\<close>: without \<open>upsert\<close> an existing key is
  rejected.
\<close>

definition already_exists :: jsstring where
  "already_exists = js ''The resource already exists''"

definition upload_object :: "service_error \<Rightarrow> jsstring \<Rightarrow> upload_file \<Rightarrow> backend \<Rightarrow> service_error \<times> backend" where
  "upload_object err key file db =
     (case err of
        Some m \<Rightarrow> (Some m, db)
      | None \<Rightarrow>
          if key \<in> dom (audio_files db) then (Some already_exists, db)
          else (None, db\<lparr>audio_files := (audio_files db)(key \<mapsto> file)\<rparr>))"

section \<open>The processing function \<open>process-audio\<close>\<close>

text \<open>
  The request: its method and what \<open>await req.json()\<close> gives. \<open>Malformed m\<close> is a body
  for which \<open>req.json()\<close> or the destructuring throws, with the message of the exception;
  \<open>Json v\<close> is an object whose field \<open>transcriptId\<close> is \<open>v\<close>, \<open>None\<close> when absent or null.
\<close>

datatype body = Malformed jsstring | Json "jsstring option"

record request =
  http_method :: jsstring
  body :: body

datatype payload = NoBody | Success bool jsstring jsstring | Failure jsstring

record response =
  status :: nat
  payload :: payload

text \<open>
  The outcome of the call to the completion endpoint: \<open>fetch\<close> rejects; the response is
  not \<open>ok\<close>; the response is \<open>ok\<close> but reading \<open>choices[0]\<close> out of its body throws; or
  \<open>choices[0]?.message?.content\<close> is read, \<open>None\<close> when undefined.
\<close>

datatype completion = FetchRejected | NotOk | BodyRejected | Content "jsstring option"

text \<open>
  What the function reads from its surroundings: three environment variables, the outcome
  of each service call, the clock, and one \<open>Math.random()\<close> draw for each use.

  The client sends the insight row as JSON, in which a number is written as a decimal
  numeral (the shortest one that reads back as the same binary64 value); the database reads
  that decimal. \<open>number_text x\<close> is the real that the decimal written for \<open>x\<close> denotes.
  Which decimal is the shortest is not modelled: \<open>number_text\<close> is part of the environment,
  and a valid environment only has to write decimals that read back as the value.
\<close>

record proc_env =
  SUPABASE_URL :: "jsstring option"
  SUPABASE_SERVICE_ROLE_KEY :: "jsstring option"
  LOVABLE_API_KEY :: "jsstring option"
  select_error :: service_error
  update_error :: service_error
  insights_error :: service_error
  completion :: completion
  random_template :: real
  random_duration :: real
  random_confidence :: real
  now :: timestamp
  toLowerCase :: "jsstring \<Rightarrow> jsstring"
  number_text :: "real \<Rightarrow> real"

datatype log_entry =
  ErrorProcessingAudio jsstring
| AIProcessingFailed
| FailedToCreateInsights jsstring

datatype call =
  SelectTranscript uuid
| UpdateTranscript uuid
| CompletionRequest jsstring
| InsertInsight uuid

text \<open>What a run shows apart from the store: the response, the console and the calls made.\<close>

record served =
  response :: response
  console :: "log_entry list"
  calls :: "call list"

text \<open>JavaScript truthiness of a value that is a string, undefined or null.\<close>

definition truthy :: "jsstring option \<Rightarrow> bool" where
  "truthy v = (case v of None \<Rightarrow> False | Some s \<Rightarrow> s \<noteq> [])"

text \<open>
  \<open>Math.floor(Math.random() * 3600) + 300\<close>: the product is rounded; the floor is an integer
  below \<open>2 ^ 53\<close>, to which 300 is added exactly.
\<close>

definition audioDuration :: "real \<Rightarrow> int" where
  "audioDuration r = \<lfloor>binary64 (r * 3600)\<rfloor> + 300"

text \<open>
  \<open>0.85 + Math.random() * 0.15\<close>: two rounded literals, a rounded product and a rounded sum.
\<close>

definition confidenceScore :: "real \<Rightarrow> real" where
  "confidenceScore r = binary64 (binary64 (85 / 100) + binary64 (r * binary64 (15 / 100)))"

text \<open>The inner \<open>try\<close> block, entered when \<open>LOVABLE_API_KEY\<close> is set.\<close>

definition generateInsights ::
  "proc_env \<Rightarrow> uuid \<Rightarrow> transcript \<Rightarrow> jsstring \<Rightarrow> backend \<Rightarrow> backend \<times> log_entry list \<times> call list" where
  "generateInsights env transcriptId transcript mockTranscript db =
     (let request = CompletionRequest
            (js ''Please analyze this interview transcript and provide insights:\<newline>\<newline>'' @
             mockTranscript)
      in case completion env of
           FetchRejected \<Rightarrow> (db, [AIProcessingFailed], [request])
         | NotOk \<Rightarrow> (db, [], [request])
         | BodyRejected \<Rightarrow> (db, [AIProcessingFailed], [request])
         | Content c \<Rightarrow>
             (let aiSummary = (case c of None \<Rightarrow> [] | Some s \<Rightarrow> s);
                  keyPoints = extractKeyPoints aiSummary;
                  tags = generateTags (toLowerCase env) aiSummary;
                  (insightsError, db') = insert_insight (insights_error env)
                     \<lparr>transcript_id = transcriptId, insight_user_id = user_id transcript,
                      summary_text = aiSummary, key_points = keyPoints, tags = tags,
                      confidence_score =
                        number_text env (confidenceScore (random_confidence env))\<rparr> db
              in (db',
                  (case insightsError of None \<Rightarrow> [] | Some m \<Rightarrow> [FailedToCreateInsights m]),
                  [request, InsertInsight transcriptId])))"

text \<open>The outer \<open>catch\<close>: the message is logged and returned with status 500.\<close>

definition caught :: "jsstring \<Rightarrow> call list \<Rightarrow> backend \<Rightarrow> served \<times> backend" where
  "caught message cs db =
     (\<lparr>response = \<lparr>status = 500, payload = Failure message\<rparr>,
       console = [ErrorProcessingAudio message], calls = cs\<rparr>, db)"

text \<open>
  The handler given to \<open>serve\<close>. \<open>createClient\<close> throws when the URL or the key is
  missing.
\<close>

definition serve :: "proc_env \<Rightarrow> request \<Rightarrow> backend \<Rightarrow> served \<times> backend" where
  "serve env req db =
     (if http_method req = js ''OPTIONS''
      then (\<lparr>response = \<lparr>status = 200, payload = NoBody\<rparr>, console = [], calls = []\<rparr>, db)
      else case body req of
        Malformed m \<Rightarrow> caught m [] db
      | Json None \<Rightarrow> caught (js ''Transcript ID is required'') [] db
      | Json (Some transcriptId) \<Rightarrow>
          if transcriptId = [] then caught (js ''Transcript ID is required'') [] db
          else if \<not> truthy (SUPABASE_URL env) then caught (js ''supabaseUrl is required.'') [] db
          else if \<not> truthy (SUPABASE_SERVICE_ROLE_KEY env)
          then caught (js ''supabaseKey is required.'') [] db
          else (case select_transcript (select_error env) transcriptId db of
             Inl m \<Rightarrow>
               caught (js ''Failed to fetch transcript: '' @ m) [SelectTranscript transcriptId] db
           | Inr transcript \<Rightarrow>
               (let mockTranscript =
                      generateMockTranscript (random_template env) (file_name transcript);
                    (updateError, db1) = update_transcript (update_error env) transcriptId
                      mockTranscript (now env) (audioDuration (random_duration env)) db
                in case updateError of
                     Some m \<Rightarrow>
                       caught (js ''Failed to update transcript: '' @ m)
                         [SelectTranscript transcriptId, UpdateTranscript transcriptId] db1
                   | None \<Rightarrow>
                       (let (db2, logs, cs) =
                              (if truthy (LOVABLE_API_KEY env)
                               then generateInsights env transcriptId transcript mockTranscript db1
                               else (db1, [], []))
                        in (\<lparr>response = \<lparr>status = 200,
                               payload = Success True (js ''Audio processed successfully'')
                                 mockTranscript\<rparr>,
                             console = logs,
                             calls = [SelectTranscript transcriptId, UpdateTranscript transcriptId]
                               @ cs\<rparr>, db2)))))"

section \<open>The upload page\<close>

datatype toast =
  MissingInformation
| FileUploadedSuccessfully
| ProcessingErrorToast
| ProcessingComplete
| UploadFailed jsstring

text \<open>
  \<open>supabase.functions.invoke('process-audio', {body: {transcriptId}})\<close>: the request does
  not reach the function, or the function runs in some environment and its response
  reaches the page or not. The page gets an error unless a response with status 2xx
  reaches it.
\<close>

datatype invocation = NotDelivered | Delivered proc_env bool

definition invoke :: "invocation \<Rightarrow> uuid \<Rightarrow> backend \<Rightarrow> bool \<times> backend" where
  "invoke how transcriptId db =
     (case how of
        NotDelivered \<Rightarrow> (True, db)
      | Delivered penv answered \<Rightarrow>
          (let (res, db') =
                 serve penv \<lparr>http_method = js ''POST'', body = Json (Some transcriptId)\<rparr> db
           in (\<not> answered \<or> \<not> (200 \<le> status (response res) \<and> status (response res) < 300),
               db')))"

record upload_env =
  transcript_error :: service_error
  generated_id :: uuid
  storage_error :: service_error
  cleanup_error :: service_error
  invocation :: invocation

text \<open>
  What the page shows after a submission: the toasts in order, the route navigated to, and
  whether the processing error was written to the console. The spinner flags \<open>uploading\<close>
  and \<open>processing\<close> are false again at every exit and are left out.
\<close>

record page =
  toasts :: "toast list"
  navigated :: "jsstring option"
  processing_error_logged :: bool

text \<open>The \<open>catch\<close> of \<open>handleUpload\<close>.\<close>

definition uploadFailed :: "jsstring \<Rightarrow> backend \<Rightarrow> page \<times> backend" where
  "uploadFailed message db =
     (\<lparr>toasts = [UploadFailed message], navigated = None, processing_error_logged = False\<rparr>, db)"

definition handleUpload ::
  "upload_env \<Rightarrow> upload_file option \<Rightarrow> jsstring \<Rightarrow> uuid option \<Rightarrow> backend \<Rightarrow> page \<times> backend" where
  "handleUpload env file ttl user db =
     (case (file, user) of
        (Some f, Some uid) \<Rightarrow>
          if ttl = []
          then (\<lparr>toasts = [MissingInformation], navigated = None,
                 processing_error_logged = False\<rparr>, db)
          else (case insert_transcript (transcript_error env) (generated_id env) uid (trim ttl)
                       (name f) db of
             (Inl m, db1) \<Rightarrow> uploadFailed (js ''Failed to create transcript record: '' @ m) db1
           | (Inr tid, db1) \<Rightarrow>
               (let fileExt = last (split 46 (name f));
                    fileName = uid @ js ''/'' @ tid @ js ''.'' @ fileExt
                in case upload_object (storage_error env) fileName f db1 of
                     (Some m, db2) \<Rightarrow>
                       (let (cleanupError, db3) = delete_transcript (cleanup_error env) tid db2
                        in uploadFailed (js ''Failed to upload file: '' @ m) db3)
                   | (None, db2) \<Rightarrow>
                       (let (processError, db3) = invoke (invocation env) tid db2
                        in (\<lparr>toasts = [FileUploadedSuccessfully,
                                 if processError then ProcessingErrorToast else ProcessingComplete],
                             navigated = Some (js ''/transcripts/'' @ tid),
                             processing_error_logged = processError\<rparr>, db3))))
      | _ \<Rightarrow> (\<lparr>toasts = [MissingInformation], navigated = None,
                processing_error_logged = False\<rparr>, db))"

section \<open>Runs of the system\<close>

text \<open>
  In a valid environment the three draws are results of \<open>Math.random()\<close>, and the decimal
  written for a binary64 value reads back as that value.
\<close>

definition valid_proc_env :: "proc_env \<Rightarrow> bool" where
  "valid_proc_env env \<longleftrightarrow>
     random_ok (random_template env) \<and> random_ok (random_duration env) \<and>
     random_ok (random_confidence env) \<and>
     (\<forall>x. binary64 x = x \<longrightarrow> binary64 (number_text env x) = x)"

definition valid_upload_env :: "upload_env \<Rightarrow> bool" where
  "valid_upload_env env \<longleftrightarrow>
     (case invocation env of NotDelivered \<Rightarrow> True | Delivered penv answered \<Rightarrow> valid_proc_env penv)"

text \<open>
  The states of the two stores that the application can produce: it starts with empty
  tables and an empty bucket; a submission of the upload page and a request to the
  processing function are the only operations of the repository that write.
\<close>

inductive reachable :: "backend \<Rightarrow> bool" where
  initial: "reachable empty_backend"
| upload: "reachable db \<Longrightarrow> valid_upload_env env \<Longrightarrow>
     reachable (snd (handleUpload env file ttl user db))"
| process: "reachable db \<Longrightarrow> valid_proc_env env \<Longrightarrow> reachable (snd (serve env req db))"

text \<open>In every transcript row, \<open>processed_at\<close> is set exactly when \<open>transcript_text\<close> is.\<close>

definition processed_consistent :: "backend \<Rightarrow> bool" where
  "processed_consistent db \<longleftrightarrow>
     (\<forall>tid t. transcripts db tid = Some t \<longrightarrow>
        (processed_at t \<noteq> None \<longleftrightarrow> transcript_text t \<noteq> None))"


text \<open>The key under which \<open>handleUpload\<close> stores the file of a transcript.\<close>

definition objectKey :: "uuid \<Rightarrow> uuid \<Rightarrow> upload_file \<Rightarrow> jsstring" where
  "objectKey uid tid f = uid @ js ''/'' @ tid @ js ''.'' @ last (split 46 (name f))"

text \<open>The heading that \<open>generateMockTranscript\<close> puts before the template.\<close>

definition transcriptHeading :: "jsstring \<Rightarrow> jsstring" where
  "transcriptHeading fileName =
     js ''File: '' @ fileName @ js ''\<newline>\<newline>Transcript:\<newline>\<newline>''"

text \<open>The words a tag can be: the fifteen business tags and the three fillers.\<close>

definition tagVocabulary :: "jsstring list" where
  "tagVocabulary = map js
     [''growth'', ''revenue'', ''market-position'', ''competition'', ''scaling'',
      ''funding'', ''technology'', ''team'', ''strategy'', ''risks'', ''opportunities'',
      ''product-development'', ''customer-success'', ''market-expansion'', ''partnerships'',
      ''business-model'', ''financial-performance'', ''leadership'']"

subsection \<open>A sample run\<close>

definition sample_user :: uuid where
  "sample_user = js ''user-1''"

definition sample_id :: uuid where
  "sample_id = js ''transcript-1''"

definition sample_file :: upload_file where
  "sample_file = \<lparr>name = js ''Interview_A.mp3'', bytes = [73, 68, 51]\<rparr>"

definition sample_key :: jsstring where
  "sample_key = js ''user-1/transcript-1.mp3''"

definition sample_summary :: jsstring where
  "sample_summary = js ''- Strong growth\<newline>- Revenue up''"

text \<open>
  The score of the sample run is written as JavaScript writes it, 0.9976562499999999; the
  sample environment writes any other number with all its digits.
\<close>

definition sample_number_text :: "real \<Rightarrow> real" where
  "sample_number_text x =
     (if x = 8986088631487692 / 9007199254740992 then 9976562499999999 / 10000000000000000
      else x)"

definition sample_proc_env :: proc_env where
  "sample_proc_env =
     \<lparr>SUPABASE_URL = Some (js ''https://project.supabase.co''),
      SUPABASE_SERVICE_ROLE_KEY = Some (js ''service-role-key''),
      LOVABLE_API_KEY = Some (js ''api-key''),
      select_error = None, update_error = None, insights_error = None,
      completion = Content (Some sample_summary),
      random_template = 1 / 2, random_duration = 15 / 16, random_confidence = 63 / 64,
      now = js ''2025-09-29T16:57:38.000Z'', toLowerCase = asciiLower,
      number_text = sample_number_text\<rparr>"

definition sample_upload_env :: upload_env where
  "sample_upload_env =
     \<lparr>transcript_error = None, generated_id = sample_id, storage_error = None,
      cleanup_error = None, invocation = Delivered sample_proc_env True\<rparr>"

definition sample_request :: request where
  "sample_request = \<lparr>http_method = js ''POST'', body = Json (Some sample_id)\<rparr>"

text \<open>The store after the page has inserted the row and uploaded the file.\<close>

definition uploaded_row :: transcript where
  "uploaded_row =
     \<lparr>user_id = sample_user, title = js ''Interview A'', file_name = js ''Interview_A.mp3'',
      transcript_text = None, audio_duration = None, processed_at = None\<rparr>"

definition uploaded_backend :: backend where
  "uploaded_backend =
     \<lparr>transcripts = [sample_id \<mapsto> uploaded_row], insights = [],
      audio_files = [sample_key \<mapsto> sample_file]\<rparr>"

text \<open>
  The store after the processing function has run on it with the sample environment:
  template 1 for the draw 1/2, 3675 seconds for the draw 15/16, and for the draw 63/64 the
  score \<open>8986088631487692 / 2 ^ 53\<close>, written as 0.9976562499999999 and stored as 1.00.
\<close>

definition sample_text :: jsstring where
  "sample_text = transcriptHeading (js ''Interview_A.mp3'') @ template_1"

definition sample_insight :: insight where
  "sample_insight =
     \<lparr>transcript_id = sample_id, insight_user_id = sample_user, summary_text = sample_summary,
      key_points = map js [''Strong growth'', ''Revenue up''],
      tags = map js [''growth'', ''revenue'', ''business-model''],
      confidence_score = 1\<rparr>"

definition processed_row :: transcript where
  "processed_row =
     \<lparr>user_id = sample_user, title = js ''Interview A'', file_name = js ''Interview_A.mp3'',
      transcript_text = Some sample_text, audio_duration = Some 3675,
      processed_at = Some (js ''2025-09-29T16:57:38.000Z'')\<rparr>"

definition processed_backend :: backend where
  "processed_backend =
     \<lparr>transcripts = [sample_id \<mapsto> processed_row], insights = [sample_insight],
      audio_files = [sample_key \<mapsto> sample_file]\<rparr>"

text \<open>
  Two more environments of the upload page: one in which the upload to the bucket and the
  deletion that follows both fail, and one in which the invocation of the processing
  function does not reach it.
\<close>

definition network_failure :: jsstring where
  "network_failure = js ''Failed to fetch''"

definition offline_upload_env :: upload_env where
  "offline_upload_env =
     \<lparr>transcript_error = None, generated_id = sample_id,
      storage_error = Some network_failure, cleanup_error = Some network_failure,
      invocation = NotDelivered\<rparr>"

definition storage_down_upload_env :: upload_env where
  "storage_down_upload_env =
     \<lparr>transcript_error = None, generated_id = sample_id,
      storage_error = Some network_failure, cleanup_error = None,
      invocation = NotDelivered\<rparr>"

definition undelivered_upload_env :: upload_env where
  "undelivered_upload_env =
     \<lparr>transcript_error = None, generated_id = sample_id, storage_error = None,
      cleanup_error = None, invocation = NotDelivered\<rparr>"


text \<open>
  Every stored confidence score is the \<open>numeric(3,2)\<close> rounding of a decimal that reads back
  as a score computed from a draw of \<open>Math.random()\<close>.
\<close>

definition scores_drawn :: "backend \<Rightarrow> bool" where
  "scores_drawn db \<longleftrightarrow>
     (\<forall>i \<in> set (insights db). \<exists>r d. random_ok r \<and> binary64 d = confidenceScore r \<and>
        confidence_score i = numeric_3_2 d)"

text \<open>
  The draws at which \<open>Math.floor(r * 3)\<close> changes its value: template \<open>k\<close> is chosen from
  \<open>templateThreshold k\<close> up to \<open>templateThreshold (k + 1)\<close>.
\<close>

definition templateThreshold :: "nat \<Rightarrow> real" where
  "templateThreshold k =
     (if k = 0 then 0 else if k = 1 then (1 - 1 / 2 ^ 54) / 3
      else if k = 2 then (2 - 1 / 2 ^ 53) / 3 else 1)"

text \<open>
  Three draws at which the rounding matters: the first with \<open>Math.floor(r * 3) = 2\<close> (it is
  less than 2/3), one at which \<open>r * 3600\<close> rounds up to 92, and the largest draw.
\<close>

definition boundary_draw :: real where
  "boundary_draw = 6004799503160661 / 9007199254740992"

definition rounding_draw :: real where
  "rounding_draw = 57545995238623 / 2251799813685248"

definition largest_draw :: real where
  "largest_draw = 1 - 1 / 2 ^ 53"

section \<open>Properties of the store operations\<close>

lemma split_nonempty: "split sep s \<noteq> []"
  by (induction s) (auto split: list.splits)

lemma insert_insight_frame:
  "transcripts (snd (insert_insight e row db)) = transcripts db"
  "audio_files (snd (insert_insight e row db)) = audio_files db"
  by (auto simp: insert_insight_def Let_def split: option.splits)

lemma insert_insight_insights:
  "insights (snd (insert_insight e row db)) = insights db \<or>
   (insights (snd (insert_insight e row db)) =
      insights db @ [row\<lparr>confidence_score := numeric_3_2 (confidence_score row)\<rparr>] \<and>
    fst (insert_insight e row db) = None)"
  by (auto simp: insert_insight_def Let_def split: option.splits)

lemma generateInsights_frame:
  "transcripts (fst (generateInsights env tid t m db)) = transcripts db"
  "audio_files (fst (generateInsights env tid t m db)) = audio_files db"
  by (simp_all add: generateInsights_def Let_def case_prod_beta insert_insight_frame
      split: completion.splits)

lemma update_transcript_frame:
  "insights (snd (update_transcript e tid x n d db)) = insights db"
  "audio_files (snd (update_transcript e tid x n d db)) = audio_files db"
  "dom (transcripts (snd (update_transcript e tid x n d db))) = dom (transcripts db)"
  by (auto simp: update_transcript_def split: option.splits)

lemma update_transcript_row:
  "transcripts (snd (update_transcript e tid x n d db)) k = Some t \<Longrightarrow>
   transcripts db k = Some t \<or>
   (transcript_text t = Some x \<and> processed_at t = Some n \<and> audio_duration t = Some d)"
  by (auto simp: update_transcript_def split: option.splits if_splits)

lemma serve_frame:
  "audio_files (snd (serve env req db)) = audio_files db"
  "dom (transcripts (snd (serve env req db))) = dom (transcripts db)"
  by (simp_all add: serve_def caught_def Let_def case_prod_beta generateInsights_frame
      update_transcript_frame split: body.splits option.splits sum.splits)

lemma serve_row:
  "transcripts (snd (serve env req db)) k = Some t \<Longrightarrow>
   transcripts db k = Some t \<or>
   (transcript_text t \<noteq> None \<and> processed_at t \<noteq> None \<and>
    audio_duration t = Some (audioDuration (random_duration env)))"
  by (auto simp: serve_def caught_def Let_def case_prod_beta generateInsights_frame
      split: body.splits option.splits sum.splits if_splits dest!: update_transcript_row)

lemma serve_consistent:
  "processed_consistent db \<Longrightarrow> processed_consistent (snd (serve env req db))"
  unfolding processed_consistent_def
  by (blast dest: serve_row)

lemma insert_transcript_consistent:
  "processed_consistent db \<Longrightarrow>
   processed_consistent (snd (insert_transcript e new_id uid ttl fname db))"
  by (auto simp: processed_consistent_def insert_transcript_def split: option.splits if_splits)

lemma delete_transcript_consistent:
  "processed_consistent db \<Longrightarrow> processed_consistent (snd (delete_transcript e tid db))"
  by (auto simp: processed_consistent_def delete_transcript_def split: option.splits if_splits)

lemma upload_object_transcripts:
  "transcripts (snd (upload_object e key f db)) = transcripts db"
  "insights (snd (upload_object e key f db)) = insights db"
  by (auto simp: upload_object_def split: option.splits)

lemma upload_object_consistent:
  "processed_consistent db \<Longrightarrow> processed_consistent (snd (upload_object e key f db))"
  by (simp add: processed_consistent_def upload_object_transcripts)

lemma invoke_consistent:
  "processed_consistent db \<Longrightarrow> processed_consistent (snd (invoke how tid db))"
  by (simp add: invoke_def case_prod_beta serve_consistent split: invocation.splits)

text \<open>The store that a submission leaves is built from the five store operations.\<close>

lemma handleUpload_store:
  "snd (handleUpload env file ttl user db) = db \<or>
   (\<exists>f uid. file = Some f \<and> user = Some uid \<and> ttl \<noteq> [] \<and>
      (let db1 = snd (insert_transcript (transcript_error env) (generated_id env) uid (trim ttl)
                   (name f) db);
           key = uid @ js ''/'' @ generated_id env @ js ''.'' @ last (split 46 (name f));
           db2 = snd (upload_object (storage_error env) key f db1)
       in snd (handleUpload env file ttl user db) = db1 \<or>
          snd (handleUpload env file ttl user db) =
            snd (delete_transcript (cleanup_error env) (generated_id env) db2) \<or>
          snd (handleUpload env file ttl user db) =
            snd (invoke (invocation env) (generated_id env) db2)))"
  by (auto simp: handleUpload_def uploadFailed_def Let_def case_prod_beta insert_transcript_def
      split: option.splits sum.splits prod.splits if_splits)

lemma handleUpload_consistent:
  assumes "processed_consistent db"
  shows "processed_consistent (snd (handleUpload env file ttl user db))"
  using handleUpload_store[of env "file" ttl user db] assms
  by (auto simp: Let_def insert_transcript_consistent delete_transcript_consistent
      upload_object_consistent invoke_consistent)

lemma empty_consistent: "processed_consistent empty_backend"
  by (simp add: processed_consistent_def empty_backend_def)

section \<open>Rounding to binary64\<close>

lemma rne_cases: "roundTiesToEven a = \<lfloor>a\<rfloor> \<or> roundTiesToEven a = \<lfloor>a\<rfloor> + 1"
  by (simp add: roundTiesToEven_def Let_def)

lemma rne_of_int: "roundTiesToEven (of_int n) = n"
  by (simp add: roundTiesToEven_def)

lemma rne_mono: "a \<le> b \<Longrightarrow> roundTiesToEven a \<le> roundTiesToEven b"
proof -
  assume ab: "a \<le> b"
  then have f: "\<lfloor>a\<rfloor> \<le> \<lfloor>b\<rfloor>" by (rule floor_mono)
  show ?thesis
  proof (cases "\<lfloor>a\<rfloor> = \<lfloor>b\<rfloor>")
    case True
    then have "a - of_int \<lfloor>a\<rfloor> \<le> b - of_int \<lfloor>b\<rfloor>" using ab by simp
    then show ?thesis using True by (auto simp: roundTiesToEven_def Let_def)
  next
    case False
    with f have "\<lfloor>a\<rfloor> + 1 \<le> \<lfloor>b\<rfloor>" by simp
    then show ?thesis using rne_cases[of a] rne_cases[of b] by linarith
  qed
qed

lemma rne_ge: "of_int m \<le> a \<Longrightarrow> m \<le> roundTiesToEven a"
  using rne_mono[of "of_int m" a] by (simp add: rne_of_int)

lemma rne_le: "a \<le> of_int m \<Longrightarrow> roundTiesToEven a \<le> m"
  using rne_mono[of a "of_int m"] by (simp add: rne_of_int)

lemma rne_below_half: "a < of_int m - 1 / 2 \<Longrightarrow> roundTiesToEven a \<le> m - 1"
proof -
  assume a: "a < of_int m - 1 / 2"
  then have "a < of_int m" by linarith
  then have "\<lfloor>a\<rfloor> \<le> m - 1" by (simp add: floor_less_iff)
  moreover have "a - of_int \<lfloor>a\<rfloor> < 1 / 2" if "\<lfloor>a\<rfloor> = m - 1" using a that by simp
  ultimately show ?thesis
    using rne_cases[of a] by (cases "\<lfloor>a\<rfloor> = m - 1") (auto simp: roundTiesToEven_def Let_def)
qed

lemma rne_nonneg: "0 \<le> a \<Longrightarrow> 0 \<le> roundTiesToEven a"
  using rne_ge[of 0 a] by simp

lemma pw_mono: "i \<le> j \<Longrightarrow> (2::real) powi i \<le> 2 powi j"
  by (rule power_int_increasing) simp_all

lemma binade_le: "binade n x \<le> n"
  by (induction n) auto

lemma binade_lower: "0 < binade n x \<Longrightarrow> 2 powi (int (binade n x) - 1022) \<le> x"
  by (induction n) (auto split: if_splits)

lemma binade_upper: "binade n x < n \<Longrightarrow> x < 2 powi (int (binade n x) - 1021)"
proof (induction n)
  case 0
  then show ?case by simp
next
  case (Suc n)
  show ?case
  proof (cases "2 powi (int (Suc n) - 1022) \<le> x")
    case True
    with Suc.prems show ?thesis by simp
  next
    case False
    then have b: "binade (Suc n) x = binade n x" by simp
    show ?thesis
    proof (cases "binade n x < n")
      case True
      from Suc.IH[OF this] b show ?thesis by simp
    next
      case False
      with binade_le[of n x] have "binade n x = n" by simp
      with b \<open>\<not> 2 powi (int (Suc n) - 1022) \<le> x\<close> show ?thesis by (simp add: algebra_simps)
    qed
  qed
qed

lemma binade_eq:
  assumes "k \<le> n" and "k = 0 \<or> 2 powi (int k - 1022) \<le> x" and "x < 2 powi (int k - 1021)"
  shows "binade n x = k"
proof (rule ccontr)
  assume ne: "binade n x \<noteq> k"
  let ?b = "binade n x"
  show False
  proof (cases "?b < k")
    case True
    then have "?b < n" using assms(1) by simp
    from binade_upper[OF this] have "x < 2 powi (int ?b - 1021)" .
    also have "\<dots> \<le> 2 powi (int k - 1022)" using True by (intro pw_mono) simp
    finally have "x < 2 powi (int k - 1022)" .
    moreover have "0 < k" using True by simp
    ultimately show False using assms(2) by simp
  next
    case False
    with ne have gt: "k < ?b" by simp
    then have "2 powi (int ?b - 1022) \<le> x" by (intro binade_lower) simp
    moreover have "2 powi (int k - 1021) \<le> (2::real) powi (int ?b - 1022)"
      using gt by (intro pw_mono) simp
    ultimately show False using assms(3) by simp
  qed
qed

lemma binade_mono: "x \<le> y \<Longrightarrow> binade n x \<le> binade n y"
proof (rule ccontr)
  assume xy: "x \<le> y" and "\<not> binade n x \<le> binade n y"
  then have gt: "binade n y < binade n x" by simp
  then have "binade n y < n" using binade_le[of n x] by simp
  from binade_upper[OF this] have "y < 2 powi (int (binade n y) - 1021)" .
  also have "\<dots> \<le> 2 powi (int (binade n x) - 1022)" using gt by (intro pw_mono) simp
  also have "\<dots> \<le> x" using gt by (intro binade_lower) simp
  finally show False using xy by simp
qed

lemma binade_top: "2 powi (int (Suc n) - 1022) \<le> x \<Longrightarrow> binade (Suc n) x = Suc n"
  by simp

lemma binary64_unfold:
  "binary64 x = of_int (roundTiesToEven (x / 2 powi (int (binade 2045 \<bar>x\<bar>) - 1074))) *
     2 powi (int (binade 2045 \<bar>x\<bar>) - 1074)"
  by (simp add: binary64_def exponent_def Let_def algebra_simps)

lemma pw_split: "(2::real) powi (i - 1022) = 2 ^ 52 * 2 powi (i - 1074)"
proof -
  have "(2::real) powi (i - 1022) = 2 powi (52 + (i - 1074))" by simp
  also have "\<dots> = 2 powi 52 * 2 powi (i - 1074)" by (subst power_int_add) simp_all
  finally show ?thesis by simp
qed

lemma pw_split': "(2::real) powi (i - 1021) = 2 ^ 53 * 2 powi (i - 1074)"
proof -
  have "(2::real) powi (i - 1021) = 2 powi (53 + (i - 1074))" by simp
  also have "\<dots> = 2 powi 53 * 2 powi (i - 1074)" by (subst power_int_add) simp_all
  finally show ?thesis by simp
qed

lemma binary64_nonneg: "0 \<le> x \<Longrightarrow> 0 \<le> binary64 x"
  unfolding binary64_unfold by (intro mult_nonneg_nonneg) (simp_all add: rne_nonneg)

lemma binary64_nonpos: "x \<le> 0 \<Longrightarrow> binary64 x \<le> 0"
proof -
  assume "x \<le> 0"
  then have "x / 2 powi (int (binade 2045 \<bar>x\<bar>) - 1074) \<le> of_int 0"
    by (simp add: divide_nonpos_pos)
  then have "roundTiesToEven (x / 2 powi (int (binade 2045 \<bar>x\<bar>) - 1074)) \<le> 0"
    by (rule rne_le)
  then show ?thesis unfolding binary64_unfold by (simp add: mult_le_0_iff)
qed

lemma binary64_lower:
  assumes "0 \<le> x" and "0 < binade 2045 x"
  shows "2 powi (int (binade 2045 x) - 1022) \<le> binary64 x"
proof -
  let ?k = "binade 2045 x"
  let ?u = "(2::real) powi (int ?k - 1074)"
  have "2 ^ 52 * ?u \<le> x" using binade_lower[OF assms(2)] by (simp add: pw_split)
  then have "of_int (2 ^ 52) \<le> x / ?u" by (simp add: le_divide_eq)
  then have "2 ^ 52 \<le> roundTiesToEven (x / ?u)" by (rule rne_ge)
  then have "(2::real) ^ 52 \<le> of_int (roundTiesToEven (x / ?u))"
    by (metis of_int_le_iff of_int_numeral of_int_power)
  then have "2 ^ 52 * ?u \<le> of_int (roundTiesToEven (x / ?u)) * ?u"
    by (intro mult_right_mono) simp_all
  then show ?thesis using assms(1) unfolding binary64_unfold by (simp add: pw_split)
qed

lemma binary64_upper:
  assumes "0 \<le> x" and "binade 2045 x < 2045"
  shows "binary64 x \<le> 2 powi (int (binade 2045 x) - 1021)"
proof -
  let ?k = "binade 2045 x"
  let ?u = "(2::real) powi (int ?k - 1074)"
  have "x < 2 ^ 53 * ?u" using binade_upper[OF assms(2)] by (simp add: pw_split')
  then have "x / ?u \<le> of_int (2 ^ 53)" by (simp add: divide_le_eq)
  then have "roundTiesToEven (x / ?u) \<le> 2 ^ 53" by (rule rne_le)
  then have "of_int (roundTiesToEven (x / ?u)) \<le> (2::real) ^ 53"
    by (metis of_int_le_iff of_int_numeral of_int_power)
  then have "of_int (roundTiesToEven (x / ?u)) * ?u \<le> 2 ^ 53 * ?u"
    by (intro mult_right_mono) simp_all
  then show ?thesis using assms(1) unfolding binary64_unfold by (simp add: pw_split')
qed

lemma binary64_mono:
  assumes "0 \<le> x" and "x \<le> y"
  shows "binary64 x \<le> binary64 y"
proof -
  have y: "0 \<le> y" using assms by simp
  let ?kx = "binade 2045 x" and ?ky = "binade 2045 y"
  have le: "?kx \<le> ?ky" using assms(2) by (rule binade_mono)
  show ?thesis
  proof (cases "?kx = ?ky")
    case True
    let ?u = "(2::real) powi (int ?ky - 1074)"
    have "x / ?u \<le> y / ?u" using assms(2) by (simp add: divide_right_mono)
    then have "roundTiesToEven (x / ?u) \<le> roundTiesToEven (y / ?u)" by (rule rne_mono)
    then have "of_int (roundTiesToEven (x / ?u)) * ?u \<le> of_int (roundTiesToEven (y / ?u)) * ?u"
      by (intro mult_right_mono) simp_all
    then show ?thesis using True assms(1) y unfolding binary64_unfold by simp
  next
    case False
    with le have lt: "?kx < ?ky" by simp
    then have "?kx < 2045" using binade_le[of 2045 y] by simp
    from binary64_upper[OF assms(1) this]
    have "binary64 x \<le> 2 powi (int ?kx - 1021)" .
    also have "\<dots> \<le> 2 powi (int ?ky - 1022)" using lt by (intro pw_mono) simp
    also have "\<dots> \<le> binary64 y" using lt by (intro binary64_lower[OF y]) simp
    finally show ?thesis .
  qed
qed

lemma binary64_eq:
  assumes "- 1021 \<le> e" and "e \<le> 1023" and "2 powi e \<le> \<bar>x\<bar>" and "\<bar>x\<bar> < 2 powi (e + 1)"
  shows "binary64 x = of_int (roundTiesToEven (x / 2 powi (e - 52))) * 2 powi (e - 52)"
proof -
  let ?k = "nat (e + 1022)"
  have k: "int ?k - 1022 = e" "int ?k - 1021 = e + 1" "int ?k - 1074 = e - 52"
    using assms(1) by simp_all
  have "binade 2045 \<bar>x\<bar> = ?k"
  proof (rule binade_eq)
    show "?k \<le> 2045" using assms(2) by simp
    have "2 powi (int ?k - 1022) \<le> \<bar>x\<bar>" using assms(3) by (simp only: k)
    then show "?k = 0 \<or> 2 powi (int ?k - 1022) \<le> \<bar>x\<bar>" ..
    show "\<bar>x\<bar> < 2 powi (int ?k - 1021)" using assms(4) by (simp only: k)
  qed
  then show ?thesis unfolding binary64_unfold by (simp only: k)
qed

lemma binary64_le_pow:
  assumes "0 \<le> x" and "x < 2 powi e" and "- 1021 \<le> e" and "e \<le> 1023"
  shows "binary64 x \<le> 2 powi e"
proof -
  let ?k = "binade 2045 x"
  have k: "int ?k - 1021 \<le> e"
  proof (cases "?k = 0")
    case True
    then show ?thesis using assms(3) by simp
  next
    case False
    then have "2 powi (int ?k - 1022) \<le> x" by (intro binade_lower) simp
    with assms(2) have "(2::real) powi (int ?k - 1022) < 2 powi e" by simp
    have "int ?k - 1022 < e"
    proof (rule ccontr)
      assume "\<not> int ?k - 1022 < e"
      then have "(2::real) powi e \<le> 2 powi (int ?k - 1022)" by (intro pw_mono) simp
      with \<open>(2::real) powi (int ?k - 1022) < 2 powi e\<close> show False by simp
    qed
    then show ?thesis by simp
  qed
  then have "?k < 2045" using assms(4) by simp
  from binary64_upper[OF assms(1) this] have "binary64 x \<le> 2 powi (int ?k - 1021)" .
  also have "\<dots> \<le> 2 powi e" using k by (rule pw_mono)
  finally show ?thesis .
qed

lemma binary64_idem: "binary64 (binary64 x) = binary64 x"
proof -
  let ?k = "binade 2045 \<bar>x\<bar>"
  let ?u = "(2::real) powi (int ?k - 1074)"
  let ?n = "roundTiesToEven (x / ?u)"
  let ?y = "real_of_int ?n * ?u"
  have y: "binary64 x = ?y" by (rule binary64_unfold)
  have absy: "\<bar>?y\<bar> = real_of_int \<bar>?n\<bar> * ?u" by (simp add: abs_mult)
  have lower: "2 ^ 52 \<le> \<bar>?n\<bar>" if "0 < ?k"
  proof -
    have "2 ^ 52 * ?u \<le> \<bar>x\<bar>" using binade_lower[OF that] by (simp add: pw_split)
    then have a: "of_int (2 ^ 52) \<le> \<bar>x\<bar> / ?u" by (simp add: le_divide_eq)
    show ?thesis
    proof (cases "0 \<le> x")
      case True
      with a have "of_int (2 ^ 52) \<le> x / ?u" by simp
      then have "2 ^ 52 \<le> ?n" by (rule rne_ge)
      then show ?thesis by simp
    next
      case False
      with a have "x / ?u \<le> of_int (- (2 ^ 52))" by (simp add: field_simps)
      then have "?n \<le> - (2 ^ 52)" by (rule rne_le)
      then show ?thesis by simp
    qed
  qed
  have upper: "\<bar>?n\<bar> \<le> 2 ^ 53" if "?k < 2045"
  proof -
    have "\<bar>x\<bar> < 2 ^ 53 * ?u" using binade_upper[OF that] by (simp add: pw_split')
    then have a: "\<bar>x\<bar> / ?u \<le> of_int (2 ^ 53)" by (simp add: divide_le_eq)
    then have "x / ?u \<le> of_int (2 ^ 53)" "of_int (- (2 ^ 53)) \<le> x / ?u"
      by (simp_all add: field_simps abs_le_iff)
    then have "?n \<le> 2 ^ 53" "- (2 ^ 53) \<le> ?n" by (simp_all only: rne_le rne_ge)
    then show ?thesis by simp
  qed
  show ?thesis
  proof (cases "?k < 2045 \<and> \<bar>?n\<bar> = 2 ^ 53")
    case True
    then have n: "real_of_int \<bar>?n\<bar> = 2 ^ 53" by simp
    have ay: "\<bar>?y\<bar> = 2 powi (int (Suc ?k) - 1022)"
      unfolding absy n using pw_split'[of "int ?k"] by (simp add: algebra_simps)
    have "binade 2045 \<bar>?y\<bar> = Suc ?k"
    proof (rule binade_eq)
      show "Suc ?k \<le> 2045" using True by simp
      show "Suc ?k = 0 \<or> 2 powi (int (Suc ?k) - 1022) \<le> \<bar>?y\<bar>" using ay by simp
      have "(2::real) powi (int (Suc ?k) - 1022) < 2 powi (int (Suc ?k) - 1021)"
        by (intro power_int_strict_increasing) simp_all
      then show "\<bar>?y\<bar> < 2 powi (int (Suc ?k) - 1021)" using ay by simp
    qed
    then have b: "binary64 ?y = of_int (roundTiesToEven (?y / 2 powi (int (Suc ?k) - 1074))) *
        2 powi (int (Suc ?k) - 1074)"
      by (simp only: binary64_unfold)
    have u': "(2::real) powi (int (Suc ?k) - 1074) = 2 * ?u"
    proof -
      have "(2::real) powi (int (Suc ?k) - 1074) = 2 powi (1 + (int ?k - 1074))" by simp
      also have "\<dots> = 2 powi 1 * ?u" by (subst power_int_add) simp_all
      finally show ?thesis by simp
    qed
    from True have "?n = 2 ^ 53 \<or> ?n = - (2 ^ 53)" by linarith
    then have "real_of_int ?n / 2 = of_int (?n div 2)" by auto
    then have "?y / (2 * ?u) = of_int (?n div 2)" by simp
    then have "roundTiesToEven (?y / (2 * ?u)) = ?n div 2" by (simp only: rne_of_int)
    moreover have "real_of_int (?n div 2) * 2 = of_int ?n"
      using \<open>?n = 2 ^ 53 \<or> ?n = - (2 ^ 53)\<close> by auto
    ultimately have "binary64 ?y = ?y" unfolding b u' by (simp add: algebra_simps)
    then show ?thesis by (simp only: y)
  next
    case False
    have "binade 2045 \<bar>?y\<bar> = ?k"
    proof (cases "?k < 2045")
      case True
      with False upper have lt: "\<bar>?n\<bar> < 2 ^ 53" by simp
      show ?thesis
      proof (rule binade_eq)
        show "?k \<le> 2045" by (rule binade_le)
        show "?k = 0 \<or> 2 powi (int ?k - 1022) \<le> \<bar>?y\<bar>"
        proof (cases "?k = 0")
          case True
          then show ?thesis by simp
        next
          case False
          then have "(2::real) ^ 52 \<le> real_of_int \<bar>?n\<bar>"
            using lower by (metis of_int_le_iff of_int_numeral of_int_power neq0_conv)
          then have "2 ^ 52 * ?u \<le> real_of_int \<bar>?n\<bar> * ?u" by (intro mult_right_mono) simp_all
          then show ?thesis unfolding absy by (simp only: pw_split) simp
        qed
        have "real_of_int \<bar>?n\<bar> < 2 ^ 53"
          using lt by (metis of_int_less_iff of_int_numeral of_int_power)
        then have "real_of_int \<bar>?n\<bar> * ?u < 2 ^ 53 * ?u" by (intro mult_strict_right_mono) simp_all
        then show "\<bar>?y\<bar> < 2 powi (int ?k - 1021)" unfolding absy by (simp only: pw_split')
      qed
    next
      case False
      with binade_le[of 2045 "\<bar>x\<bar>"] have k: "?k = Suc 2044" by simp
      then have "(2::real) ^ 52 \<le> real_of_int \<bar>?n\<bar>"
        using lower by (metis of_int_le_iff of_int_numeral of_int_power zero_less_Suc)
      then have "2 ^ 52 * ?u \<le> real_of_int \<bar>?n\<bar> * ?u" by (intro mult_right_mono) simp_all
      then have "2 powi (int ?k - 1022) \<le> \<bar>?y\<bar>" unfolding absy by (simp only: pw_split)
      then have "2 powi (int (Suc 2044) - 1022) \<le> \<bar>?y\<bar>" by (simp only: k)
      then have "binade (Suc 2044) \<bar>?y\<bar> = Suc 2044" by (rule binade_top)
      then show ?thesis by (simp only: k) simp
    qed
    then have "binary64 ?y = of_int (roundTiesToEven (?y / ?u)) * ?u"
      by (simp only: binary64_unfold)
    also have "?y / ?u = of_int ?n" by simp
    finally have "binary64 ?y = ?y" by (simp only: rne_of_int)
    then show ?thesis by (simp only: y)
  qed
qed

text \<open>Particular values.\<close>

lemma binary64_half: "binary64 (1 / 2) = 1 / 2"
  by (subst binary64_eq[where e = "-1"]) (simp_all add: roundTiesToEven_def)

lemma binary64_085: "binary64 (85 / 100) = 7656119366529843 / 9007199254740992"
  by (subst binary64_eq[where e = "-1"]) (simp_all add: roundTiesToEven_def)

lemma binary64_015: "binary64 (15 / 100) = 5404319552844595 / 36028797018963968"
  by (subst binary64_eq[where e = "-3"]) (simp_all add: roundTiesToEven_def)

lemma binary64_085_fixed:
  "binary64 (7656119366529843 / 9007199254740992) = 7656119366529843 / 9007199254740992"
  by (subst binary64_eq[where e = "-1"]) (simp_all add: roundTiesToEven_def)

lemma binary64_015_fixed:
  "binary64 (5404319552844595 / 36028797018963968) = 5404319552844595 / 36028797018963968"
  by (subst binary64_eq[where e = "-3"]) (simp_all add: roundTiesToEven_def)

lemma binary64_sum_one:
  "binary64 (7656119366529843 / 9007199254740992 + 5404319552844595 / 36028797018963968) = 1"
  by (subst binary64_eq[where e = "-1"]) (simp_all add: roundTiesToEven_def)

lemma binary64_0845: "binary64 (845 / 1000) < 7656119366529843 / 9007199254740992"
  by (subst binary64_eq[where e = "-1"]) (simp_all add: roundTiesToEven_def)

lemma binary64_1005: "1 < binary64 (1005 / 1000)"
  by (subst binary64_eq[where e = 0]) (simp_all add: roundTiesToEven_def)

lemma binary64_below_one: "binary64 (1 - 1 / 2 ^ 54) = 1"
  by (subst binary64_eq[where e = "-1"]) (simp_all add: roundTiesToEven_def)

lemma binary64_below_two: "binary64 (2 - 1 / 2 ^ 53) = 2"
  by (subst binary64_eq[where e = 0]) (simp_all add: roundTiesToEven_def)

text \<open>Where the rounding crosses 1, 2, 3 and 3600.\<close>

lemma rne_below_half_real:
  "a < of_int m - 1 / 2 \<Longrightarrow> real_of_int (roundTiesToEven a) \<le> of_int m - 1"
proof -
  assume "a < of_int m - 1 / 2"
  then have "roundTiesToEven a \<le> m - 1" by (rule rne_below_half)
  then have "real_of_int (roundTiesToEven a) \<le> real_of_int (m - 1)" by (simp only: of_int_le_iff)
  then show ?thesis by simp
qed

lemma binary64_ge_one_iff:
  assumes "0 \<le> x"
  shows "1 \<le> binary64 x \<longleftrightarrow> 1 - 1 / 2 ^ 54 \<le> x"
proof
  assume "1 - 1 / 2 ^ 54 \<le> x"
  then have "binary64 (1 - 1 / 2 ^ 54) \<le> binary64 x" by (intro binary64_mono) simp_all
  then show "1 \<le> binary64 x" by (simp only: binary64_below_one)
next
  assume one: "1 \<le> binary64 x"
  show "1 - 1 / 2 ^ 54 \<le> x"
  proof (rule ccontr)
    assume "\<not> 1 - 1 / 2 ^ 54 \<le> x"
    then have lt: "x < 1 - 1 / 18014398509481984" by simp
    show False
    proof (cases "x < 1 / 2")
      case True
      then have "binary64 x \<le> 2 powi (- 1)"
        using assms by (intro binary64_le_pow) simp_all
      with one show False by simp
    next
      case False
      have u: "(2::real) powi (- 1 - 52) = 1 / 9007199254740992" by simp
      have "binary64 x = of_int (roundTiesToEven (x / 2 powi (- 1 - 52))) * 2 powi (- 1 - 52)"
        using False lt assms by (intro binary64_eq) simp_all
      then have b: "binary64 x = of_int (roundTiesToEven (x * 9007199254740992)) / 9007199254740992"
        by (simp only: u) simp
      have "x * 9007199254740992 < of_int 9007199254740992 - 1 / 2" using lt by simp
      then have "real_of_int (roundTiesToEven (x * 9007199254740992)) \<le> of_int 9007199254740992 - 1"
        by (rule rne_below_half_real)
      then have "binary64 x < 1" unfolding b by simp
      with one show False by simp
    qed
  qed
qed

lemma binary64_ge_two_iff:
  assumes "0 \<le> x"
  shows "2 \<le> binary64 x \<longleftrightarrow> 2 - 1 / 2 ^ 53 \<le> x"
proof
  assume "2 - 1 / 2 ^ 53 \<le> x"
  then have "binary64 (2 - 1 / 2 ^ 53) \<le> binary64 x" by (intro binary64_mono) simp_all
  then show "2 \<le> binary64 x" by (simp only: binary64_below_two)
next
  assume two: "2 \<le> binary64 x"
  show "2 - 1 / 2 ^ 53 \<le> x"
  proof (rule ccontr)
    assume "\<not> 2 - 1 / 2 ^ 53 \<le> x"
    then have lt: "x < 2 - 1 / 9007199254740992" by simp
    show False
    proof (cases "x < 1")
      case True
      then have "binary64 x \<le> 2 powi 0"
        using assms by (intro binary64_le_pow) simp_all
      with two show False by simp
    next
      case False
      have u: "(2::real) powi (0 - 52) = 1 / 4503599627370496" by simp
      have "binary64 x = of_int (roundTiesToEven (x / 2 powi (0 - 52))) * 2 powi (0 - 52)"
        using False lt assms by (intro binary64_eq) simp_all
      then have b: "binary64 x = of_int (roundTiesToEven (x * 4503599627370496)) / 4503599627370496"
        by (simp only: u) simp
      have "x * 4503599627370496 < of_int 9007199254740992 - 1 / 2" using lt by simp
      then have "real_of_int (roundTiesToEven (x * 4503599627370496)) \<le> of_int 9007199254740992 - 1"
        by (rule rne_below_half_real)
      then have "binary64 x < 2" unfolding b by simp
      with two show False by simp
    qed
  qed
qed

lemma binary64_less_three:
  assumes "0 \<le> x" and "x \<le> 3 - 3 / 2 ^ 53"
  shows "binary64 x < 3"
proof (cases "x < 2")
  case True
  then have "binary64 x \<le> 2 powi 1" using assms by (intro binary64_le_pow) simp_all
  then show ?thesis by simp
next
  case False
  have le: "x \<le> 3 - 3 / 9007199254740992" using assms(2) by simp
  have u: "(2::real) powi (1 - 52) = 1 / 2251799813685248" by simp
  have "binary64 x = of_int (roundTiesToEven (x / 2 powi (1 - 52))) * 2 powi (1 - 52)"
    using False le assms(1) by (intro binary64_eq) simp_all
  then have b: "binary64 x = of_int (roundTiesToEven (x * 2251799813685248)) / 2251799813685248"
    by (simp only: u) simp
  have "x * 2251799813685248 < of_int 6755399441055744 - 1 / 2" using le by simp
  then have "real_of_int (roundTiesToEven (x * 2251799813685248)) \<le> of_int 6755399441055744 - 1"
    by (rule rne_below_half_real)
  then show ?thesis unfolding b by simp
qed

lemma binary64_less_3600:
  assumes "0 \<le> x" and "x \<le> 3600 - 3600 / 2 ^ 53"
  shows "binary64 x < 3600"
proof (cases "x < 2048")
  case True
  then have "binary64 x \<le> 2 powi 11" using assms by (intro binary64_le_pow) simp_all
  then show ?thesis by simp
next
  case False
  have le: "x \<le> 3600 - 3600 / 9007199254740992" using assms(2) by simp
  have u: "(2::real) powi (11 - 52) = 1 / 2199023255552" by simp
  have "binary64 x = of_int (roundTiesToEven (x / 2 powi (11 - 52))) * 2 powi (11 - 52)"
    using False le assms(1) by (intro binary64_eq) simp_all
  then have b: "binary64 x = of_int (roundTiesToEven (x * 2199023255552)) / 2199023255552"
    by (simp only: u) simp
  have "x * 2199023255552 < of_int 7916483719987200 - 1 / 2" using le by simp
  then have "real_of_int (roundTiesToEven (x * 2199023255552)) \<le> of_int 7916483719987200 - 1"
    by (rule rne_below_half_real)
  then show ?thesis unfolding b by simp
qed

lemma random_ok_le:
  assumes "random_ok r"
  shows "r \<le> 1 - 1 / 2 ^ 53"
proof (cases "r < 1 / 2")
  case True
  then show ?thesis by simp
next
  case False
  from assms have r: "0 \<le> r" "r < 1" "binary64 r = r" by (simp_all add: random_ok_def)
  let ?n = "roundTiesToEven (r * 9007199254740992)"
  have u: "(2::real) powi (- 1 - 52) = 1 / 9007199254740992" by simp
  have "binary64 r = of_int (roundTiesToEven (r / 2 powi (- 1 - 52))) * 2 powi (- 1 - 52)"
    using False r by (intro binary64_eq) simp_all
  then have "binary64 r = of_int ?n / 9007199254740992" by (simp only: u) simp
  with r(3) have e: "r = of_int ?n / 9007199254740992" by simp
  with r(2) have "real_of_int ?n < real_of_int 9007199254740992" by simp
  then have "?n < 9007199254740992" by (simp only: of_int_less_iff)
  then have "?n \<le> 9007199254740991" by simp
  then have "real_of_int ?n \<le> real_of_int 9007199254740991" by (simp only: of_int_le_iff)
  then have "real_of_int ?n / 9007199254740992 \<le> 1 - 1 / 2 ^ 53" by simp
  with e show ?thesis by simp
qed

section \<open>Properties of the random draws and the templates\<close>

lemma template_0_13: "template_0 ! 13 = 84" by (simp add: template_0_def js_def)
lemma template_1_13: "template_1 ! 13 = 76" by (simp add: template_1_def js_def)
lemma template_2_13: "template_2 ! 13 = 67" by (simp add: template_2_def js_def)

lemma distinct_templates: "distinct templates"
  using template_0_13 template_1_13 template_2_13 by (auto simp: templates_def)

lemma length_templates: "length templates = 3"
  by (simp add: templates_def)

lemma binary64_draw_times_3:
  assumes "random_ok r"
  shows "0 \<le> binary64 (r * 3)" and "binary64 (r * 3) < 3"
proof -
  have "0 \<le> r * 3" "r * 3 \<le> 3 - 3 / 2 ^ 53"
    using random_ok_le[OF assms] assms by (simp_all add: random_ok_def)
  then show "0 \<le> binary64 (r * 3)" and "binary64 (r * 3) < 3"
    by (simp_all only: binary64_nonneg binary64_less_three)
qed

lemma randomIndex_3: "randomIndex r 3 = nat \<lfloor>binary64 (r * 3)\<rfloor>"
  by (simp add: randomIndex_def)

lemma randomIndex_less: "random_ok r \<Longrightarrow> randomIndex r 3 < 3"
proof -
  assume r: "random_ok r"
  from binary64_draw_times_3(2)[OF r] have "\<lfloor>binary64 (r * 3)\<rfloor> < 3"
    by (simp add: floor_less_iff)
  then show ?thesis unfolding randomIndex_3 by arith
qed

lemma generateMockTranscript_eq:
  "random_ok r \<Longrightarrow>
   generateMockTranscript r fileName = transcriptHeading fileName @ templates ! randomIndex r 3"
  using randomIndex_less[of r]
  by (simp add: generateMockTranscript_def transcriptHeading_def Let_def length_templates)

lemma randomIndex_eq_iff:
  assumes "random_ok r" and "k < 3"
  shows "randomIndex r 3 = k \<longleftrightarrow> templateThreshold k \<le> r \<and> r < templateThreshold (Suc k)"
proof -
  let ?y = "binary64 (r * 3)"
  from assms(1) have r: "0 \<le> r" "r < 1" by (simp_all add: random_ok_def)
  have nn: "0 \<le> r * 3" using r by simp
  note y0 = binary64_draw_times_3(1)[OF assms(1)] and y3 = binary64_draw_times_3(2)[OF assms(1)]
  have f0: "0 \<le> \<lfloor>?y\<rfloor>" using y0 by simp
  have idx: "randomIndex r 3 = k \<longleftrightarrow> real k \<le> ?y \<and> ?y < real k + 1"
  proof -
    have "randomIndex r 3 = k \<longleftrightarrow> \<lfloor>?y\<rfloor> = int k"
      unfolding randomIndex_3 using f0 by arith
    also have "\<dots> \<longleftrightarrow> real k \<le> ?y \<and> ?y < real k + 1"
      by (auto simp: floor_eq_iff)
    finally show ?thesis .
  qed
  have one: "1 \<le> ?y \<longleftrightarrow> (1 - 1 / 2 ^ 54) / 3 \<le> r"
    using binary64_ge_one_iff[OF nn] by (simp add: field_simps)
  have two: "2 \<le> ?y \<longleftrightarrow> (2 - 1 / 2 ^ 53) / 3 \<le> r"
    using binary64_ge_two_iff[OF nn] by (simp add: field_simps)
  from assms(2) consider "k = 0" | "k = 1" | "k = 2" by linarith
  then show ?thesis
  proof cases
    case 1
    then show ?thesis using idx y0 one r by (auto simp: templateThreshold_def)
  next
    case 2
    then show ?thesis using idx one two by (auto simp: templateThreshold_def)
  next
    case 3
    then show ?thesis using idx y3 two r by (auto simp: templateThreshold_def)
  qed
qed

lemma templateThreshold_length:
  "k < 3 \<Longrightarrow> \<bar>templateThreshold (Suc k) - templateThreshold k - 1 / 3\<bar> < 1 / 2 ^ 53"
proof -
  assume "k < 3"
  then consider "k = 0" | "k = 1" | "k = 2" by linarith
  then show ?thesis by cases (simp_all add: templateThreshold_def)
qed

lemma audioDuration_range:
  assumes "random_ok r"
  shows "300 \<le> audioDuration r \<and> audioDuration r < 3900"
proof -
  from assms have "0 \<le> r * 3600" "r * 3600 \<le> 3600 - 3600 / 2 ^ 53"
    using random_ok_le[OF assms] by (simp_all add: random_ok_def)
  then have "0 \<le> binary64 (r * 3600)" "binary64 (r * 3600) < 3600"
    by (simp_all add: binary64_nonneg binary64_less_3600)
  then have "0 \<le> \<lfloor>binary64 (r * 3600)\<rfloor>" "\<lfloor>binary64 (r * 3600)\<rfloor> < 3600"
    by (simp_all add: floor_less_iff)
  then show ?thesis by (simp add: audioDuration_def)
qed

lemma confidenceScore_range:
  assumes "random_ok r"
  shows "binary64 (85 / 100) \<le> confidenceScore r \<and> confidenceScore r \<le> 1"
proof -
  let ?a = "7656119366529843 / 9007199254740992 :: real"
  let ?b = "5404319552844595 / 36028797018963968 :: real"
  let ?p = "binary64 (r * ?b)"
  from assms have r: "0 \<le> r" "r < 1" by (simp_all add: random_ok_def)
  have "0 \<le> r * ?b" "r * ?b \<le> ?b" using r by simp_all
  then have p: "0 \<le> ?p" "?p \<le> ?b"
    using binary64_mono[of "r * ?b" ?b] by (simp_all add: binary64_nonneg binary64_015_fixed)
  have "binary64 ?a \<le> binary64 (?a + ?p)" using p(1) by (intro binary64_mono) simp_all
  moreover have "binary64 (?a + ?p) \<le> binary64 (?a + ?b)" using p by (intro binary64_mono) simp_all
  ultimately have "?a \<le> binary64 (?a + ?p) \<and> binary64 (?a + ?p) \<le> 1"
    by (simp only: binary64_085_fixed binary64_sum_one)
  then show ?thesis unfolding confidenceScore_def binary64_085 binary64_015 .
qed

lemma stored_score_range:
  assumes "binary64 d = c" and "binary64 (85 / 100) \<le> c" and "c \<le> 1"
  shows "85 / 100 \<le> numeric_3_2 d \<and> numeric_3_2 d \<le> 1"
proof -
  have lo: "845 / 1000 \<le> d"
  proof (rule ccontr)
    assume "\<not> 845 / 1000 \<le> d"
    then have lt: "d < 845 / 1000" by simp
    have "binary64 d < 7656119366529843 / 9007199254740992"
    proof (cases "0 \<le> d")
      case True
      then have "binary64 d \<le> binary64 (845 / 1000)" using lt by (intro binary64_mono) simp_all
      with binary64_0845 show ?thesis by simp
    next
      case False
      then have "binary64 d \<le> 0" by (intro binary64_nonpos) simp
      then show ?thesis by simp
    qed
    with assms(1) assms(2)[unfolded binary64_085] show False by simp
  qed
  have hi: "d < 1005 / 1000"
  proof (rule ccontr)
    assume "\<not> d < 1005 / 1000"
    then have "binary64 (1005 / 1000) \<le> binary64 d" by (intro binary64_mono) simp_all
    with binary64_1005 assms(1,3) show False by simp
  qed
  have "85 \<le> \<lfloor>d * 100 + 1 / 2\<rfloor>" using lo by (simp add: le_floor_iff)
  moreover have "\<lfloor>d * 100 + 1 / 2\<rfloor> < 101" using hi by (simp add: floor_less_iff)
  ultimately have "85 \<le> real_of_int \<lfloor>d * 100 + 1 / 2\<rfloor>" "real_of_int \<lfloor>d * 100 + 1 / 2\<rfloor> \<le> 100"
    by linarith+
  then show ?thesis using lo by (simp add: numeric_3_2_def)
qed

section \<open>Properties of the tag vocabulary\<close>

lemma tagVocabulary_eq: "tagVocabulary = commonBusinessTags @ additionalTags"
  by (simp add: tagVocabulary_def commonBusinessTags_def additionalTags_def)

lemma distinct_tagVocabulary: "distinct tagVocabulary"
  by (simp add: tagVocabulary_def js_def)

lemma length_tagVocabulary: "length tagVocabulary = 18"
  by (simp add: tagVocabulary_def)

lemma distinct_selected_tags:
  "distinct (filter P commonBusinessTags @ slice0 n additionalTags)"
proof -
  have d: "distinct commonBusinessTags" "distinct additionalTags"
    "set commonBusinessTags \<inter> set additionalTags = {}"
    using distinct_tagVocabulary by (simp_all add: tagVocabulary_eq)
  have "set (slice0 n additionalTags) \<subseteq> set additionalTags"
    by (simp add: slice0_def set_take_subset)
  moreover have "set (filter P commonBusinessTags) \<subseteq> set commonBusinessTags" by auto
  ultimately have "set (filter P commonBusinessTags) \<inter> set (slice0 n additionalTags) = {}"
    using d(3) by blast
  then show ?thesis using d(1,2) by (simp add: slice0_def)
qed

lemma set_selected_tags:
  "set (filter P commonBusinessTags @ slice0 n additionalTags) \<subseteq> set tagVocabulary"
  using set_take_subset[of n additionalTags] by (auto simp: tagVocabulary_eq slice0_def)

section \<open>Responses of the processing function\<close>





section \<open>Stored confidence scores\<close>

lemma insert_insight_scores:
  assumes "random_ok r" and "binary64 (confidence_score row) = confidenceScore r"
    and "scores_drawn db"
  shows "scores_drawn (snd (insert_insight e row db))"
proof -
  have new: "\<exists>r' d. random_ok r' \<and> binary64 d = confidenceScore r' \<and>
      numeric_3_2 (confidence_score row) = numeric_3_2 d"
    using assms(1,2) by blast
  from insert_insight_insights[of e row db] show ?thesis
  proof
    assume "insights (snd (insert_insight e row db)) = insights db"
    with assms(3) show ?thesis by (simp add: scores_drawn_def)
  next
    assume "insights (snd (insert_insight e row db)) =
      insights db @ [row\<lparr>confidence_score := numeric_3_2 (confidence_score row)\<rparr>] \<and>
      fst (insert_insight e row db) = None"
    with assms(3) new show ?thesis by (auto simp: scores_drawn_def)
  qed
qed

lemma confidenceScore_binary64: "binary64 (confidenceScore r) = confidenceScore r"
  unfolding confidenceScore_def by (rule binary64_idem)

lemma generateInsights_scores:
  assumes "valid_proc_env env" and "scores_drawn db"
  shows "scores_drawn (fst (generateInsights env tid t m db))"
proof -
  from assms(1) have r: "random_ok (random_confidence env)"
    and rt: "binary64 (number_text env (confidenceScore (random_confidence env))) =
      confidenceScore (random_confidence env)"
    by (simp_all add: valid_proc_env_def confidenceScore_binary64)
  have ins: "scores_drawn (snd (insert_insight e row db))"
    if "confidence_score row = number_text env (confidenceScore (random_confidence env))"
    for e row
    using insert_insight_scores[OF r _ assms(2), of row e] rt that by simp
  show ?thesis
    using assms(2)
    by (auto simp: generateInsights_def Let_def case_prod_beta ins split: completion.splits)
qed

lemma update_transcript_scores:
  "scores_drawn db \<Longrightarrow> scores_drawn (snd (update_transcript e tid x n d db))"
  by (simp add: scores_drawn_def update_transcript_frame)

lemma serve_scores:
  assumes "valid_proc_env env" and "scores_drawn db"
  shows "scores_drawn (snd (serve env req db))"
  using assms
  by (auto simp: serve_def caught_def Let_def case_prod_beta
      generateInsights_scores update_transcript_scores
      split: body.splits option.splits sum.splits)

lemma insert_transcript_scores:
  "scores_drawn db \<Longrightarrow> scores_drawn (snd (insert_transcript e new_id uid ttl fname db))"
  by (auto simp: scores_drawn_def insert_transcript_def split: option.splits)

lemma upload_object_scores:
  "scores_drawn db \<Longrightarrow> scores_drawn (snd (upload_object e key f db))"
  by (simp add: scores_drawn_def upload_object_transcripts)

lemma delete_transcript_scores:
  "scores_drawn db \<Longrightarrow> scores_drawn (snd (delete_transcript e tid db))"
  by (auto simp: scores_drawn_def delete_transcript_def split: option.splits)

lemma invoke_scores:
  assumes "case how of NotDelivered \<Rightarrow> True | Delivered penv answered \<Rightarrow> valid_proc_env penv"
    and "scores_drawn db"
  shows "scores_drawn (snd (invoke how tid db))"
  using assms by (auto simp: invoke_def case_prod_beta serve_scores split: invocation.splits)

lemma handleUpload_scores:
  assumes "valid_upload_env env" and "scores_drawn db"
  shows "scores_drawn (snd (handleUpload env file ttl user db))"
  using handleUpload_store[of env "file" ttl user db] assms
  by (auto simp: Let_def valid_upload_env_def insert_transcript_scores upload_object_scores
      delete_transcript_scores invoke_scores)

lemma empty_scores: "scores_drawn empty_backend"
  by (simp add: scores_drawn_def empty_backend_def)

lemma reachable_scores: "reachable db \<Longrightarrow> scores_drawn db"
  by (induction rule: reachable.induct)
     (simp_all add: empty_scores handleUpload_scores serve_scores)

section \<open>Draws at which the rounding matters\<close>

text \<open>
  At \<open>boundary_draw\<close>, which is less than 2/3, the product with 3 rounds to 2 and the third
  template is chosen. At \<open>rounding_draw\<close> the product with 3600 is less than 92 and rounds
  to 92. At the draw 1/2 the score is less than 0.925 and rounds to 0.92 at two decimals. At
  the largest draw the score is 1.
\<close>

lemma random_ok_boundary: "random_ok boundary_draw"
  unfolding random_ok_def boundary_draw_def
  by (subst binary64_eq[where e = "-1"]) (simp_all add: roundTiesToEven_def)

lemma randomIndex_boundary: "randomIndex boundary_draw 3 = 2"
  unfolding randomIndex_def boundary_draw_def
  by (subst binary64_eq[where e = 0]) (simp_all add: roundTiesToEven_def)

lemma random_ok_rounding: "random_ok rounding_draw"
  unfolding random_ok_def rounding_draw_def
  by (subst binary64_eq[where e = "-6"]) (simp_all add: roundTiesToEven_def)

lemma audioDuration_rounding: "audioDuration rounding_draw = 392"
  unfolding audioDuration_def rounding_draw_def
  by (subst binary64_eq[where e = 6]) (simp_all add: roundTiesToEven_def)

lemma confidenceScore_half: "confidenceScore (1 / 2) = 8331659310635417 / 9007199254740992"
proof -
  have p: "binary64 (1 / 2 * (5404319552844595 / 36028797018963968)) =
      5404319552844595 / 72057594037927936"
    by (subst binary64_eq[where e = "-4"]) (simp_all add: roundTiesToEven_def)
  have s: "binary64 (7656119366529843 / 9007199254740992 + 5404319552844595 / 72057594037927936) =
      8331659310635417 / 9007199254740992"
    by (subst binary64_eq[where e = "-1"]) (simp_all add: roundTiesToEven_def)
  show ?thesis by (simp only: confidenceScore_def binary64_085 binary64_015 p s)
qed

lemma stored_half: "numeric_3_2 (confidenceScore (1 / 2)) = 92 / 100"
  by (simp add: confidenceScore_half numeric_3_2_def)

lemma random_ok_largest: "random_ok largest_draw"
  unfolding random_ok_def largest_draw_def
  by (subst binary64_eq[where e = "-1"]) (simp_all add: roundTiesToEven_def)

lemma confidenceScore_largest: "confidenceScore largest_draw = 1"
proof -
  have p: "binary64 ((1 - 1 / 2 ^ 53) * (5404319552844595 / 36028797018963968)) =
      5404319552844594 / 36028797018963968"
    by (subst binary64_eq[where e = "-3"]) (simp_all add: roundTiesToEven_def)
  have s: "binary64 (7656119366529843 / 9007199254740992 + 5404319552844594 / 36028797018963968) = 1"
    by (subst binary64_eq[where e = "-1"]) (simp_all add: roundTiesToEven_def)
  show ?thesis by (simp only: largest_draw_def confidenceScore_def binary64_085 binary64_015 p s)
qed

section \<open>The sample run, evaluated\<close>

lemma post_not_options: "js ''POST'' \<noteq> js ''OPTIONS''"
  by code_simp

lemma sample_id_nonempty: "sample_id \<noteq> []"
  by (simp add: sample_id_def js_def)

lemma sample_key_points: "extractKeyPoints sample_summary = map js [''Strong growth'', ''Revenue up'']"
  by (simp add: extractKeyPoints_def sample_summary_def pushKeyPoint_def trim_def
      isWhiteSpace_def js_def stripMarks_def bulletMarks_def slice0_def)

lemma sample_tags:
  "generateTags asciiLower sample_summary = map js [''growth'', ''revenue'', ''business-model'']"
  by code_simp

lemma random_ok_half: "random_ok (1 / 2)"
  by (simp add: random_ok_def binary64_half)

lemma random_ok_15_16: "random_ok (15 / 16)"
  unfolding random_ok_def
  by (subst binary64_eq[where e = "-1"]) (simp_all add: roundTiesToEven_def)

lemma random_ok_63_64: "random_ok (63 / 64)"
  unfolding random_ok_def
  by (subst binary64_eq[where e = "-1"]) (simp_all add: roundTiesToEven_def)

lemma randomIndex_half: "randomIndex (1 / 2) 3 = 1"
  unfolding randomIndex_def
  by (subst binary64_eq[where e = 0]) (simp_all add: roundTiesToEven_def)

lemma audioDuration_15_16: "audioDuration (15 / 16) = 3675"
  unfolding audioDuration_def
  by (subst binary64_eq[where e = 11]) (simp_all add: roundTiesToEven_def)

lemma confidenceScore_63_64:
  "confidenceScore (63 / 64) = 8986088631487692 / 9007199254740992"
proof -
  have p: "binary64 (63 / 64 * (5404319552844595 / 36028797018963968)) =
      5319877059831398 / 36028797018963968"
    by (subst binary64_eq[where e = "-3"]) (simp_all add: roundTiesToEven_def)
  have s: "binary64 (7656119366529843 / 9007199254740992 + 5319877059831398 / 36028797018963968) =
      8986088631487692 / 9007199254740992"
    by (subst binary64_eq[where e = "-1"]) (simp_all add: roundTiesToEven_def)
  show ?thesis by (simp only: confidenceScore_def binary64_085 binary64_015 p s)
qed

lemma sample_mock: "generateMockTranscript (1 / 2) (js ''Interview_A.mp3'') = sample_text"
  by (simp add: generateMockTranscript_eq[OF random_ok_half] randomIndex_half templates_def
      sample_text_def)

lemma sample_duration: "audioDuration (15 / 16) = 3675"
  by (rule audioDuration_15_16)

lemma sample_number_text_reads_back:
  "binary64 x = x \<Longrightarrow> binary64 (sample_number_text x) = x"
proof -
  have "binary64 (9976562499999999 / 10000000000000000) = 8986088631487692 / 9007199254740992"
    by (subst binary64_eq[where e = "-1"]) (simp_all add: roundTiesToEven_def)
  then show "binary64 x = x \<Longrightarrow> binary64 (sample_number_text x) = x"
    by (simp add: sample_number_text_def)
qed

lemma sample_score: "numeric_3_2 (sample_number_text (confidenceScore (63 / 64))) = 1"
  by (simp add: confidenceScore_63_64 sample_number_text_def numeric_3_2_def)

lemma sample_truthy:
  "truthy (SUPABASE_URL sample_proc_env)" "truthy (SUPABASE_SERVICE_ROLE_KEY sample_proc_env)"
  "truthy (LOVABLE_API_KEY sample_proc_env)"
  by (simp_all add: sample_proc_env_def truthy_def js_def)

lemma sample_select:
  "select_transcript (select_error sample_proc_env) sample_id uploaded_backend = Inr uploaded_row"
  by (simp add: select_transcript_def sample_proc_env_def uploaded_backend_def)

lemma uploaded_row_fields:
  "file_name uploaded_row = js ''Interview_A.mp3''" "user_id uploaded_row = sample_user"
  by (simp_all add: uploaded_row_def)

lemma sample_env_fields:
  "random_template sample_proc_env = 1 / 2" "random_duration sample_proc_env = 15 / 16"
  "random_confidence sample_proc_env = 63 / 64" "update_error sample_proc_env = None"
  "insights_error sample_proc_env = None"
  "completion sample_proc_env = Content (Some sample_summary)"
  "toLowerCase sample_proc_env = asciiLower"
  "now sample_proc_env = js ''2025-09-29T16:57:38.000Z''"
  "number_text sample_proc_env = sample_number_text"
  by (simp_all add: sample_proc_env_def)

lemma sample_update:
  "update_transcript None sample_id sample_text (js ''2025-09-29T16:57:38.000Z'') 3675
     uploaded_backend = (None, processed_backend\<lparr>insights := []\<rparr>)"
  by (simp add: update_transcript_def uploaded_backend_def processed_backend_def
      uploaded_row_def processed_row_def)

lemma sample_generateInsights:
  "user_id t = sample_user \<Longrightarrow>
   generateInsights sample_proc_env sample_id t sample_text (processed_backend\<lparr>insights := []\<rparr>) =
     (processed_backend, [],
      [CompletionRequest
         (js ''Please analyze this interview transcript and provide insights:\<newline>\<newline>'' @
          sample_text),
       InsertInsight sample_id])"
  by (simp add: generateInsights_def sample_env_fields insert_insight_def sample_score
      sample_key_points sample_tags processed_backend_def sample_insight_def)

lemma serve_sample:
  "serve sample_proc_env sample_request uploaded_backend =
     (\<lparr>response = \<lparr>status = 200,
         payload = Success True (js ''Audio processed successfully'') sample_text\<rparr>,
       console = [],
       calls = [SelectTranscript sample_id, UpdateTranscript sample_id,
         CompletionRequest
           (js ''Please analyze this interview transcript and provide insights:\<newline>\<newline>'' @
            sample_text),
         InsertInsight sample_id]\<rparr>,
      processed_backend)"
  unfolding serve_def
  by (simp add: sample_request_def post_not_options sample_id_nonempty sample_truthy
      sample_select uploaded_row_fields sample_env_fields sample_mock sample_duration
      sample_update sample_generateInsights)

lemma sample_trim: "trim (js ''Interview A'') = js ''Interview A''"
  by (simp add: trim_def isWhiteSpace_def js_def)

lemma sample_ext: "last (split 46 (name sample_file)) = js ''mp3''"
  by (simp add: sample_file_def) code_simp

lemma sample_key_eq: "sample_user @ js ''/'' @ sample_id @ js ''.'' @ js ''mp3'' = sample_key"
  by code_simp

lemma sample_insert:
  "insert_transcript None sample_id sample_user (js ''Interview A'') (name sample_file)
     empty_backend = (Inr sample_id, uploaded_backend\<lparr>audio_files := Map.empty\<rparr>)"
  by (simp add: insert_transcript_def empty_backend_def uploaded_backend_def sample_file_def
      uploaded_row_def)

lemma sample_upload_object:
  "upload_object None sample_key sample_file (uploaded_backend\<lparr>audio_files := Map.empty\<rparr>) =
     (None, uploaded_backend)"
  by (simp add: upload_object_def uploaded_backend_def)

lemma sample_invoke:
  "invoke (Delivered sample_proc_env True) sample_id uploaded_backend = (False, processed_backend)"
  using serve_sample by (simp add: invoke_def sample_request_def)

lemma sample_upload_env_fields:
  "transcript_error sample_upload_env = None" "generated_id sample_upload_env = sample_id"
  "storage_error sample_upload_env = None" "cleanup_error sample_upload_env = None"
  "invocation sample_upload_env = Delivered sample_proc_env True"
  by (simp_all add: sample_upload_env_def)

lemma handleUpload_sample:
  "handleUpload sample_upload_env (Some sample_file) (js ''Interview A'') (Some sample_user)
     empty_backend =
     (\<lparr>toasts = [FileUploadedSuccessfully, ProcessingComplete],
       navigated = Some (js ''/transcripts/'' @ sample_id), processing_error_logged = False\<rparr>,
      processed_backend)"
proof -
  have t: "js ''Interview A'' \<noteq> []" by (simp add: js_def)
  show ?thesis
    unfolding handleUpload_def
    by (simp add: t sample_upload_env_fields sample_trim sample_insert sample_ext sample_key_eq
        sample_upload_object sample_invoke)
qed

lemma sample_valid: "valid_proc_env sample_proc_env" "valid_upload_env sample_upload_env"
  by (simp_all add: valid_proc_env_def valid_upload_env_def sample_upload_env_def
      sample_env_fields random_ok_half random_ok_15_16 random_ok_63_64
      sample_number_text_reads_back)

lemma reachable_processed_backend: "reachable processed_backend"
  using reachable.upload[OF reachable.initial sample_valid(2), of "Some sample_file"
      "js ''Interview A''" "Some sample_user"]
  by (simp add: handleUpload_sample)




lemma serve_sample_row:
  "transcripts (snd (serve sample_proc_env sample_request uploaded_backend)) sample_id =
     Some processed_row"
  by (simp add: serve_sample processed_backend_def)

lemma uploaded_row_differs: "transcripts uploaded_backend sample_id \<noteq> Some processed_row"
  by (simp add: uploaded_backend_def uploaded_row_def processed_row_def)

section \<open>Submissions of the upload page\<close>

lemma insert_transcript_ok:
  assumes "new_id \<notin> dom (transcripts db)"
  shows "insert_transcript None new_id uid ttl fname db =
     (Inr new_id, db\<lparr>transcripts := (transcripts db)(new_id \<mapsto>
        \<lparr>user_id = uid, title = ttl, file_name = fname, transcript_text = None,
         audio_duration = None, processed_at = None\<rparr>)\<rparr>)"
  using assms by (simp add: insert_transcript_def)

lemma upload_object_ok:
  assumes "key \<notin> dom (audio_files db)"
  shows "upload_object None key f db = (None, db\<lparr>audio_files := (audio_files db)(key \<mapsto> f)\<rparr>)"
  using assms by (simp add: upload_object_def)

lemma invoke_frame:
  "audio_files (snd (invoke how tid db)) = audio_files db"
  "dom (transcripts (snd (invoke how tid db))) = dom (transcripts db)"
  by (simp_all add: invoke_def case_prod_beta serve_frame split: invocation.splits)

lemma invoke_not_delivered: "fst (invoke NotDelivered tid db)"
  by (simp add: invoke_def)

lemma invoke_unanswered: "fst (invoke (Delivered penv False) tid db)"
  by (simp add: invoke_def case_prod_beta)

lemma handleUpload_uploaded:
  assumes "ttl \<noteq> []" and "transcript_error env = None"
    and "generated_id env \<notin> dom (transcripts db)"
    and "storage_error env = None"
    and "objectKey uid (generated_id env) f \<notin> dom (audio_files db)"
  shows "handleUpload env (Some f) ttl (Some uid) db =
     (let db2 = db\<lparr>transcripts := (transcripts db)(generated_id env \<mapsto>
                   \<lparr>user_id = uid, title = trim ttl, file_name = name f, transcript_text = None,
                    audio_duration = None, processed_at = None\<rparr>),
                 audio_files := (audio_files db)(objectKey uid (generated_id env) f \<mapsto> f)\<rparr>;
          r = invoke (invocation env) (generated_id env) db2
      in (\<lparr>toasts = [FileUploadedSuccessfully,
              if fst r then ProcessingErrorToast else ProcessingComplete],
           navigated = Some (js ''/transcripts/'' @ generated_id env),
           processing_error_logged = fst r\<rparr>, snd r))"
  using assms
  by (simp add: handleUpload_def insert_transcript_ok upload_object_ok objectKey_def Let_def
      case_prod_beta)

lemma sample_objectKey: "objectKey sample_user sample_id sample_file = sample_key"
  by (simp add: objectKey_def sample_ext sample_key_eq)

lemma sample_title: "js ''Interview A'' \<noteq> []"
  by (simp add: js_def)

lemma upload_object_fst:
  "audio_files db' = audio_files db \<Longrightarrow>
   fst (upload_object e key f db') = fst (upload_object e key f db)"
  by (simp add: upload_object_def split: option.splits)

lemma upload_object_failed:
  "fst (upload_object e key f db) = Some m \<Longrightarrow> upload_object e key f db = (Some m, db)"
  by (auto simp: upload_object_def split: option.splits if_splits)

lemma handleUpload_upload_failed:
  assumes "ttl \<noteq> []" and "transcript_error env = None"
    and "generated_id env \<notin> dom (transcripts db)"
    and "fst (upload_object (storage_error env) (objectKey uid (generated_id env) f) f db) = Some m"
  shows "handleUpload env (Some f) ttl (Some uid) db =
     (\<lparr>toasts = [UploadFailed (js ''Failed to upload file: '' @ m)], navigated = None,
       processing_error_logged = False\<rparr>,
      snd (delete_transcript (cleanup_error env) (generated_id env)
        (db\<lparr>transcripts := (transcripts db)(generated_id env \<mapsto>
           \<lparr>user_id = uid, title = trim ttl, file_name = name f, transcript_text = None,
            audio_duration = None, processed_at = None\<rparr>)\<rparr>)))"
proof -
  let ?db1 = "db\<lparr>transcripts := (transcripts db)(generated_id env \<mapsto>
     \<lparr>user_id = uid, title = trim ttl, file_name = name f, transcript_text = None,
      audio_duration = None, processed_at = None\<rparr>)\<rparr>"
  have "fst (upload_object (storage_error env) (objectKey uid (generated_id env) f) f ?db1) = Some m"
    using assms(4) upload_object_fst[of ?db1 db] by simp
  then have u: "upload_object (storage_error env) (objectKey uid (generated_id env) f) f ?db1 =
      (Some m, ?db1)"
    by (rule upload_object_failed)
  show ?thesis
    using assms(1-3) u
    by (simp add: handleUpload_def insert_transcript_ok objectKey_def uploadFailed_def
        case_prod_beta)
qed

lemma storage_down_fields:
  "transcript_error storage_down_upload_env = None"
  "generated_id storage_down_upload_env = sample_id"
  "storage_error storage_down_upload_env = Some network_failure"
  "cleanup_error storage_down_upload_env = None"
  by (simp_all add: storage_down_upload_env_def)

lemma offline_fields:
  "transcript_error offline_upload_env = None"
  "generated_id offline_upload_env = sample_id"
  "storage_error offline_upload_env = Some network_failure"
  "cleanup_error offline_upload_env = Some network_failure"
  by (simp_all add: offline_upload_env_def)

lemma undelivered_fields:
  "transcript_error undelivered_upload_env = None"
  "generated_id undelivered_upload_env = sample_id"
  "storage_error undelivered_upload_env = None"
  "invocation undelivered_upload_env = NotDelivered"
  by (simp_all add: undelivered_upload_env_def)

lemma empty_backend_doms:
  "k \<notin> dom (transcripts empty_backend)" "k' \<notin> dom (audio_files empty_backend)"
  by (simp_all add: empty_backend_def)

section \<open>The claims\<close>

subsection \<open>C1: a failed upload and the compensating deletion\<close>

text \<open>
  Claim C1, as the code has it. When the row has been inserted and the upload of the file to
  the bucket fails, \<open>handleUpload\<close> requests the deletion of the row it has just created and
  then fails with the upload error, whatever the deletion returned (its result is not read).
  When the deletion is carried out, the row no longer exists.
\<close>

theorem failed_upload_compensated:
  assumes "ttl \<noteq> []" and "transcript_error env = None"
    and "generated_id env \<notin> dom (transcripts db)"
    and "fst (upload_object (storage_error env) (objectKey uid (generated_id env) f) f db) = Some m"
  shows "toasts (fst (handleUpload env (Some f) ttl (Some uid) db)) =
           [UploadFailed (js ''Failed to upload file: '' @ m)] \<and>
         navigated (fst (handleUpload env (Some f) ttl (Some uid) db)) = None \<and>
         (cleanup_error env = None \<longrightarrow>
            transcripts (snd (handleUpload env (Some f) ttl (Some uid) db)) (generated_id env) = None)"
  unfolding handleUpload_upload_failed[OF assms]
  by (simp add: delete_transcript_def)

theorem failed_upload_compensated_witness:
  "js ''Interview A'' \<noteq> [] \<and> transcript_error storage_down_upload_env = None \<and>
   generated_id storage_down_upload_env \<notin> dom (transcripts empty_backend) \<and>
   fst (upload_object (storage_error storage_down_upload_env)
     (objectKey sample_user (generated_id storage_down_upload_env) sample_file) sample_file
     empty_backend) = Some network_failure \<and>
   cleanup_error storage_down_upload_env = None \<and>
   toasts (fst (handleUpload storage_down_upload_env (Some sample_file) (js ''Interview A'')
     (Some sample_user) empty_backend)) =
     [UploadFailed (js ''Failed to upload file: '' @ network_failure)] \<and>
   transcripts (snd (handleUpload storage_down_upload_env (Some sample_file) (js ''Interview A'')
     (Some sample_user) empty_backend)) sample_id = None"
proof -
  have u: "fst (upload_object (storage_error storage_down_upload_env)
     (objectKey sample_user (generated_id storage_down_upload_env) sample_file) sample_file
     empty_backend) = Some network_failure"
    by (simp add: upload_object_def storage_down_fields)
  from failed_upload_compensated[OF sample_title storage_down_fields(1) empty_backend_doms(1) u]
    sample_title storage_down_fields empty_backend_doms(1) u
  show ?thesis by simp
qed

text \<open>
  The row does not disappear after every failed upload: when the deletion fails as well (the
  network that failed the upload is still down), the page reports the upload error and the
  row stays.
\<close>

theorem failed_upload_counterexample:
  "storage_error offline_upload_env = Some network_failure \<and>
   toasts (fst (handleUpload offline_upload_env (Some sample_file) (js ''Interview A'')
     (Some sample_user) empty_backend)) =
     [UploadFailed (js ''Failed to upload file: '' @ network_failure)] \<and>
   transcripts (snd (handleUpload offline_upload_env (Some sample_file) (js ''Interview A'')
     (Some sample_user) empty_backend)) sample_id = Some uploaded_row"
proof -
  have u: "fst (upload_object (storage_error offline_upload_env)
     (objectKey sample_user (generated_id offline_upload_env) sample_file) sample_file
     empty_backend) = Some network_failure"
    by (simp add: upload_object_def offline_fields)
  show ?thesis
    unfolding handleUpload_upload_failed[OF sample_title offline_fields(1) empty_backend_doms(1) u]
    by (simp add: offline_fields delete_transcript_def sample_trim uploaded_row_def
        sample_file_def empty_backend_def)
qed

subsection \<open>C2: \<open>processed_at\<close> and \<open>transcript_text\<close> are set together\<close>

text \<open>
  Claim C2. In every state that the application can reach, every transcript row has
  \<open>processed_at\<close> set if and only if \<open>transcript_text\<close> is set: the page inserts rows with
  both empty, the processing function sets both (and \<open>audio_duration\<close>) in one update, and
  nothing else writes either column.
\<close>

theorem processed_at_iff_transcript_text:
  "reachable db \<Longrightarrow> transcripts db tid = Some t \<Longrightarrow>
   (processed_at t \<noteq> None \<longleftrightarrow> transcript_text t \<noteq> None)"
proof -
  assume r: "reachable db" and t: "transcripts db tid = Some t"
  from r have "processed_consistent db"
    by (induction rule: reachable.induct)
       (simp_all add: empty_consistent handleUpload_consistent serve_consistent)
  with t show ?thesis by (simp add: processed_consistent_def)
qed

theorem processed_at_iff_transcript_text_witness:
  "reachable processed_backend \<and> transcripts processed_backend sample_id = Some processed_row \<and>
   (processed_at processed_row \<noteq> None \<longleftrightarrow> transcript_text processed_row \<noteq> None) \<and>
   processed_at processed_row = Some (js ''2025-09-29T16:57:38.000Z'') \<and>
   transcript_text processed_row = Some sample_text"
proof -
  have row: "transcripts processed_backend sample_id = Some processed_row"
    by (simp add: processed_backend_def)
  from processed_at_iff_transcript_text[OF reachable_processed_backend row]
  show ?thesis using reachable_processed_backend row by (simp add: processed_row_def)
qed

subsection \<open>C3: failures of the completion call are not fatal\<close>



subsection \<open>C4: a failed invocation of the processing function\<close>

text \<open>
  Claim C4. Once the row is inserted and the file is uploaded, \<open>handleUpload\<close> navigates to
  \<open>/transcripts/id\<close> whatever the invocation of the processing function returns; a failed
  invocation only changes the second toast to the processing-error notice and is logged,
  and the row and the uploaded file are still there afterwards.
\<close>

theorem processing_failure_not_fatal:
  assumes "ttl \<noteq> []" and "transcript_error env = None"
    and "generated_id env \<notin> dom (transcripts db)"
    and "storage_error env = None"
    and "objectKey uid (generated_id env) f \<notin> dom (audio_files db)"
  shows "navigated (fst (handleUpload env (Some f) ttl (Some uid) db)) =
           Some (js ''/transcripts/'' @ generated_id env) \<and>
         toasts (fst (handleUpload env (Some f) ttl (Some uid) db)) =
           [FileUploadedSuccessfully,
            if processing_error_logged (fst (handleUpload env (Some f) ttl (Some uid) db))
            then ProcessingErrorToast else ProcessingComplete] \<and>
         generated_id env \<in> dom (transcripts (snd (handleUpload env (Some f) ttl (Some uid) db))) \<and>
         audio_files (snd (handleUpload env (Some f) ttl (Some uid) db))
           (objectKey uid (generated_id env) f) = Some f \<and>
         (invocation env = NotDelivered \<longrightarrow>
            processing_error_logged (fst (handleUpload env (Some f) ttl (Some uid) db))) \<and>
         (\<forall>penv. invocation env = Delivered penv False \<longrightarrow>
            processing_error_logged (fst (handleUpload env (Some f) ttl (Some uid) db)))"
  unfolding handleUpload_uploaded[OF assms]
  by (simp add: Let_def invoke_frame invoke_not_delivered invoke_unanswered)

theorem processing_failure_not_fatal_witness:
  "js ''Interview A'' \<noteq> [] \<and> transcript_error undelivered_upload_env = None \<and>
   generated_id undelivered_upload_env \<notin> dom (transcripts empty_backend) \<and>
   storage_error undelivered_upload_env = None \<and>
   objectKey sample_user (generated_id undelivered_upload_env) sample_file
     \<notin> dom (audio_files empty_backend) \<and>
   invocation undelivered_upload_env = NotDelivered \<and>
   navigated (fst (handleUpload undelivered_upload_env (Some sample_file) (js ''Interview A'')
     (Some sample_user) empty_backend)) = Some (js ''/transcripts/'' @ sample_id) \<and>
   toasts (fst (handleUpload undelivered_upload_env (Some sample_file) (js ''Interview A'')
     (Some sample_user) empty_backend)) = [FileUploadedSuccessfully, ProcessingErrorToast] \<and>
   sample_id \<in> dom (transcripts (snd (handleUpload undelivered_upload_env (Some sample_file)
     (js ''Interview A'') (Some sample_user) empty_backend))) \<and>
   audio_files (snd (handleUpload undelivered_upload_env (Some sample_file) (js ''Interview A'')
     (Some sample_user) empty_backend)) sample_key = Some sample_file"
proof -
  note h = sample_title undelivered_fields(1) empty_backend_doms(1)[of "generated_id undelivered_upload_env"]
    undelivered_fields(3)
    empty_backend_doms(2)[of "objectKey sample_user (generated_id undelivered_upload_env) sample_file"]
  from processing_failure_not_fatal[OF h] h undelivered_fields(2,4) sample_objectKey
  show ?thesis by simp
qed

subsection \<open>C5: the synthesized transcript\<close>

text \<open>
  Claim C5. For every file name and every draw \<open>r\<close> of \<open>Math.random()\<close>, the synthesized
  text is the heading \<open>File: \<close> + file name + two newlines + \<open>Transcript:\<close> + two newlines,
  followed by exactly one of the three templates, and nothing else. The template is the one
  at index \<open>Math.floor(r * 3)\<close>: template \<open>k\<close> is chosen exactly for the draws from
  \<open>templateThreshold k\<close> up to \<open>templateThreshold (k + 1)\<close>, three intervals that together
  make up all draws and whose lengths differ from 1/3 by less than \<open>1 / 2 ^ 53\<close>, the
  rounding of the product. This is a uniform choice among the three for a uniform draw, as
  far as binary64 arithmetic allows one.
\<close>

theorem mock_transcript_template:
  assumes "random_ok r"
  shows "(\<exists>!i. i < 3 \<and> generateMockTranscript r fileName = transcriptHeading fileName @ templates ! i) \<and>
         (\<forall>k<3. generateMockTranscript r fileName = transcriptHeading fileName @ templates ! k
            \<longleftrightarrow> templateThreshold k \<le> r \<and> r < templateThreshold (Suc k)) \<and>
         (\<forall>k<3. \<bar>templateThreshold (Suc k) - templateThreshold k - 1 / 3\<bar> < 1 / 2 ^ 53)"
proof -
  let ?i = "randomIndex r 3"
  have i: "?i < 3" by (rule randomIndex_less[OF assms])
  have eq: "generateMockTranscript r fileName = transcriptHeading fileName @ templates ! ?i"
    by (rule generateMockTranscript_eq[OF assms])
  have inj: "templates ! ?i = templates ! k \<longleftrightarrow> ?i = k" if "k < 3" for k
    using distinct_templates i that by (simp add: nth_eq_iff_index_eq length_templates)
  have one: "\<exists>!j. j < 3 \<and> generateMockTranscript r fileName = transcriptHeading fileName @ templates ! j"
  proof (intro ex1I[of _ ?i] conjI)
    fix j assume "j < 3 \<and> generateMockTranscript r fileName = transcriptHeading fileName @ templates ! j"
    then have "j < 3" "templates ! ?i = templates ! j" by (simp_all add: eq)
    then show "j = ?i" using inj[of j] by simp
  qed (simp_all add: i eq)
  have two: "\<forall>k<3. generateMockTranscript r fileName = transcriptHeading fileName @ templates ! k
            \<longleftrightarrow> templateThreshold k \<le> r \<and> r < templateThreshold (Suc k)"
    using inj randomIndex_eq_iff[OF assms] by (simp add: eq)
  have three: "\<forall>k<3. \<bar>templateThreshold (Suc k) - templateThreshold k - 1 / 3\<bar> < 1 / 2 ^ 53"
    using templateThreshold_length by blast
  from one two three show ?thesis by blast
qed

text \<open>
  Two draws: 1/2 gives the second template, and \<open>boundary_draw\<close>, which is less than 2/3 and
  whose product with 3 rounds to 2, gives the third.
\<close>

theorem mock_transcript_template_witness:
  "random_ok (1 / 2) \<and>
   generateMockTranscript (1 / 2) (js ''Interview_A.mp3'') =
     transcriptHeading (js ''Interview_A.mp3'') @ template_1 \<and>
   random_ok boundary_draw \<and> boundary_draw < 2 / 3 \<and>
   generateMockTranscript boundary_draw (js ''Interview_A.mp3'') =
     transcriptHeading (js ''Interview_A.mp3'') @ template_2"
proof -
  have t1: "templateThreshold 1 \<le> 1 / 2 \<and> 1 / 2 < templateThreshold (Suc 1)"
    by (simp add: templateThreshold_def)
  have t2: "templateThreshold 2 \<le> boundary_draw \<and> boundary_draw < templateThreshold (Suc 2)"
    by (simp add: templateThreshold_def boundary_draw_def)
  have lt: "boundary_draw < 2 / 3" by (simp add: boundary_draw_def)
  from mock_transcript_template[OF random_ok_half, of "js ''Interview_A.mp3''"] t1
  have a: "generateMockTranscript (1 / 2) (js ''Interview_A.mp3'') =
          transcriptHeading (js ''Interview_A.mp3'') @ templates ! 1"
    by (metis one_less_numeral_iff semiring_norm(77))
  from mock_transcript_template[OF random_ok_boundary, of "js ''Interview_A.mp3''"] t2
  have b: "generateMockTranscript boundary_draw (js ''Interview_A.mp3'') =
          transcriptHeading (js ''Interview_A.mp3'') @ templates ! 2"
    by (metis lessI numeral_3_eq_3 numeral_2_eq_2)
  from a b lt random_ok_half random_ok_boundary show ?thesis by (simp add: templates_def)
qed

subsection \<open>C6: the audio duration\<close>

text \<open>
  Claim C6, as the code has it. The \<open>audio_duration\<close> that the processing function writes
  is \<open>Math.floor(Math.random() * 3600) + 300\<close>, computed in binary64: for every draw it is an
  integer \<open>d\<close> with \<open>300 \<le> d < 3900\<close> (5 to 65 minutes, as the comment in the source
  says). Every row that a run of the function changes carries such a duration.
\<close>

theorem audio_duration_written:
  assumes "random_ok (random_duration env)"
    and "transcripts (snd (serve env req db)) tid = Some t"
    and "transcripts db tid \<noteq> Some t"
  shows "audio_duration t = Some (audioDuration (random_duration env)) \<and>
         300 \<le> audioDuration (random_duration env) \<and> audioDuration (random_duration env) < 3900"
  using serve_row[OF assms(2)] assms(3) audioDuration_range[OF assms(1)] by blast

theorem audio_duration_written_witness:
  "random_ok (random_duration sample_proc_env) \<and>
   transcripts (snd (serve sample_proc_env sample_request uploaded_backend)) sample_id =
     Some processed_row \<and>
   transcripts uploaded_backend sample_id \<noteq> Some processed_row \<and>
   audio_duration processed_row = Some (audioDuration (random_duration sample_proc_env)) \<and>
   300 \<le> audioDuration (random_duration sample_proc_env) \<and>
   audioDuration (random_duration sample_proc_env) < 3900"
proof -
  have r: "random_ok (random_duration sample_proc_env)"
    by (simp add: sample_env_fields random_ok_15_16)
  from audio_duration_written[OF r serve_sample_row uploaded_row_differs]
    r serve_sample_row uploaded_row_differs
  show ?thesis by blast
qed

text \<open>
  The bound \<open>d < 3600\<close> does not hold: with the draw 15/16 the function writes 3675 seconds.
\<close>

theorem audio_duration_counterexample:
  "random_ok (random_duration sample_proc_env) \<and>
   transcripts (snd (serve sample_proc_env sample_request uploaded_backend)) sample_id =
     Some processed_row \<and>
   audio_duration processed_row = Some 3675 \<and> \<not> (3675 < (3600::int))"
  using serve_sample_row
  by (simp add: sample_env_fields random_ok_15_16 processed_row_def)

subsection \<open>C7: the confidence score\<close>

text \<open>
  Claim C7, as the code has it. The processing function computes the score of an insight as
  \<open>0.85 + Math.random() * 0.15\<close> in binary64, a value from the number that the literal
  \<open>0.85\<close> denotes up to 1.0, which is reached at the largest draw. The row is sent as JSON,
  and the column \<open>confidence_score numeric(3,2)\<close> stores the decimal written for the score
  rounded to two decimals. So every insight that exists in a reachable state has a stored
  score \<open>c\<close> with \<open>0.85 \<le> c \<le> 1\<close>.
\<close>

theorem stored_confidence_score:
  assumes "reachable db" and "i \<in> set (insights db)"
  shows "85 / 100 \<le> confidence_score i \<and> confidence_score i \<le> 1 \<and>
         (\<exists>r d. random_ok r \<and> binary64 (85 / 100) \<le> confidenceScore r \<and>
              confidenceScore r \<le> 1 \<and> binary64 d = confidenceScore r \<and>
              confidence_score i = numeric_3_2 d)"
proof -
  from reachable_scores[OF assms(1)] assms(2) obtain r d where
    r: "random_ok r" and d: "binary64 d = confidenceScore r"
    and c: "confidence_score i = numeric_3_2 d"
    by (auto simp: scores_drawn_def)
  from confidenceScore_range[OF r]
  have b: "binary64 (85 / 100) \<le> confidenceScore r" "confidenceScore r \<le> 1"
    by blast+
  from stored_score_range[OF d b] c r b d show ?thesis by auto
qed

theorem stored_confidence_score_witness:
  "reachable processed_backend \<and> sample_insight \<in> set (insights processed_backend) \<and>
   85 / 100 \<le> confidence_score sample_insight \<and> confidence_score sample_insight \<le> 1"
proof -
  have i: "sample_insight \<in> set (insights processed_backend)"
    by (simp add: processed_backend_def)
  from stored_confidence_score[OF reachable_processed_backend i] reachable_processed_backend i
  show ?thesis by blast
qed

text \<open>
  The bound \<open>c < 1\<close> does not hold for the stored score: with the draw 63/64 the computed
  score is 0.9976562499999999..., which the column stores as 1.00.
\<close>

theorem stored_confidence_score_counterexample:
  "random_ok (random_confidence sample_proc_env) \<and>
   insights (snd (serve sample_proc_env sample_request uploaded_backend)) = [sample_insight] \<and>
   confidence_score sample_insight = 1 \<and> \<not> (confidence_score sample_insight < 1)"
  by (simp add: sample_env_fields random_ok_63_64 serve_sample processed_backend_def
      sample_insight_def)

subsection \<open>C8: bounds on key points and tags\<close>

text \<open>
  Claim C8. For every response text of the completion endpoint, \<open>extractKeyPoints\<close> returns
  at most 8 key points, and \<open>generateTags\<close> returns at most 6 and at least 3 tags, whatever
  the case mapping is. (The line scanner keeps a line that holds a bullet mark, or whose
  length is more than 50 and less than 200; with no such line it falls back to the first 5
  sentences whose trimmed length is more than 30.)
\<close>

theorem key_points_and_tags_bounds:
  "length (extractKeyPoints aiSummary) \<le> 8 \<and>
   length (generateTags lower aiSummary) \<le> 6 \<and>
   3 \<le> length (generateTags lower aiSummary)"
  by (auto simp: extractKeyPoints_def generateTags_def slice0_def Let_def additionalTags_def)

subsection \<open>C9: a request without a transcript id\<close>

text \<open>
  Claim C9. When the body of a request to the processing function has no \<open>transcriptId\<close> or
  an empty one, the function answers with status 500 and the error
  \<open>Transcript ID is required\<close>, has called neither the database nor the completion
  endpoint, and leaves the store as it was.
\<close>

theorem missing_transcript_id:
  assumes "http_method req \<noteq> js ''OPTIONS''" and "body req = Json v" and "\<not> truthy v"
  shows "serve env req db =
     (\<lparr>response = \<lparr>status = 500, payload = Failure (js ''Transcript ID is required'')\<rparr>,
       console = [ErrorProcessingAudio (js ''Transcript ID is required'')], calls = []\<rparr>, db)"
  using assms by (auto simp: serve_def caught_def truthy_def split: option.splits)

theorem missing_transcript_id_witness:
  "http_method \<lparr>http_method = js ''POST'', body = Json (Some [])\<rparr> \<noteq> js ''OPTIONS'' \<and>
   \<not> truthy (Some []) \<and>
   serve sample_proc_env \<lparr>http_method = js ''POST'', body = Json (Some [])\<rparr> processed_backend =
     (\<lparr>response = \<lparr>status = 500, payload = Failure (js ''Transcript ID is required'')\<rparr>,
       console = [ErrorProcessingAudio (js ''Transcript ID is required'')], calls = []\<rparr>,
      processed_backend)"
proof -
  have m: "http_method \<lparr>http_method = js ''POST'', body = Json (Some [])\<rparr> \<noteq> js ''OPTIONS''"
    by (simp add: post_not_options)
  have b: "body \<lparr>http_method = js ''POST'', body = Json (Some [])\<rparr> = Json (Some [])" by simp
  have f: "\<not> truthy (Some [])" by (simp add: truthy_def)
  from missing_transcript_id[OF m b f, of sample_proc_env processed_backend] m f
  show ?thesis by blast
qed

subsection \<open>C10: tags come from a fixed vocabulary, without duplicates\<close>

text \<open>
  Claim C10. For every input text, every tag that \<open>generateTags\<close> returns is one of the 18
  words of \<open>tagVocabulary\<close> (the 15 business tags and the 3 fillers), and the returned list
  has no duplicates.
\<close>

theorem tags_in_vocabulary:
  "set (generateTags lower aiSummary) \<subseteq> set tagVocabulary \<and>
   distinct (generateTags lower aiSummary) \<and> length tagVocabulary = 18"
proof -
  let ?P = "\<lambda>tag. includes_js (lower aiSummary) (replace (js ''-'') (js '' '') tag) \<or>
              includes_js (lower aiSummary) (replace (js ''-'') [] tag)"
  let ?rel = "filter ?P commonBusinessTags"
  let ?n = "if length ?rel < 3 then 3 - length ?rel else 0"
  let ?all = "?rel @ slice0 ?n additionalTags"
  have g: "generateTags lower aiSummary = slice0 6 ?all"
    by (simp add: generateTags_def Let_def slice0_def)
  have "set (slice0 6 ?all) \<subseteq> set ?all"
    unfolding slice0_def by (rule set_take_subset)
  also have "set ?all \<subseteq> set tagVocabulary"
    by (rule set_selected_tags)
  finally have sub: "set (generateTags lower aiSummary) \<subseteq> set tagVocabulary"
    unfolding g .
  have "distinct ?all" by (rule distinct_selected_tags)
  then have "distinct (slice0 6 ?all)"
    unfolding slice0_def by (rule distinct_take)
  then have dis: "distinct (generateTags lower aiSummary)"
    unfolding g .
  from sub dis length_tagVocabulary show ?thesis by blast
qed

theorem tags_in_vocabulary_witness:
  "generateTags asciiLower (js ''Growth and Market Position'') =
     map js [''growth'', ''market-position'', ''business-model''] \<and>
   set (map js [''growth'', ''market-position'', ''business-model'']) \<subseteq> set tagVocabulary \<and>
   distinct (map js [''growth'', ''market-position'', ''business-model''])"
proof -
  have e: "generateTags asciiLower (js ''Growth and Market Position'') =
     map js [''growth'', ''market-position'', ''business-model'']"
    by code_simp
  from tags_in_vocabulary[of asciiLower "js ''Growth and Market Position''"]
  have "set (map js [''growth'', ''market-position'', ''business-model'']) \<subseteq> set tagVocabulary"
    and "distinct (map js [''growth'', ''market-position'', ''business-model''])"
    unfolding e by blast+
  with e show ?thesis by blast
qed


end
